theory Spec2Isabelle
  imports Complex_Main "HOL-Library.AList"
begin

section \<open>JavaScript numbers\<close>

text \<open>
  The program computes with JavaScript numbers. They are modelled as the reals extended by
  the three special values of IEEE-754 that the arithmetic of the program can produce:
  \<open>Infinity\<close>, \<open>-Infinity\<close> and \<open>NaN\<close>. Finite results are exact: rounding, overflow of
  finite operands and the sign of zero are not modelled (a zero divisor counts as \<open>+0\<close>).
  A computation on doubles agrees with this arithmetic, up to rounding, as long as none of
  its operations overflows or underflows. The theorems that conclude a finite value from
  finite operands (the velocity change of \<open>attract\<close>, the time step of zero) are theorems
  of this exact arithmetic; the theorems about the shape of the store, and about \<open>NaN\<close>
  arising from a zero mass, do not depend on it.
\<close>

datatype number = Fin real | PosInf | NegInf | NaN

fun isFinite :: "number \<Rightarrow> bool" where
  "isFinite (Fin a) = True"
| "isFinite PosInf = False"
| "isFinite NegInf = False"
| "isFinite NaN = False"

text \<open>An infinity of the given sign (\<open>True\<close> is positive).\<close>

definition infinity :: "bool \<Rightarrow> number" where
  "infinity pos = (if pos then PosInf else NegInf)"

text \<open>The product of an infinity of sign \<open>pos\<close> with the number \<open>b\<close>.\<close>

fun times_infinity :: "bool \<Rightarrow> number \<Rightarrow> number" where
  "times_infinity pos (Fin b) =
     (if b = 0 then NaN else infinity (if 0 < b then pos else \<not> pos))"
| "times_infinity pos PosInf = infinity pos"
| "times_infinity pos NegInf = infinity (\<not> pos)"
| "times_infinity pos NaN = NaN"

instantiation number :: "{plus, uminus, minus, times, inverse}"
begin

fun plus_number :: "number \<Rightarrow> number \<Rightarrow> number" where
  "plus_number (Fin a) (Fin b) = Fin (a + b)"
| "plus_number NaN b = NaN"
| "plus_number a NaN = NaN"
| "plus_number PosInf NegInf = NaN"
| "plus_number NegInf PosInf = NaN"
| "plus_number PosInf b = PosInf"
| "plus_number NegInf b = NegInf"
| "plus_number a PosInf = PosInf"
| "plus_number a NegInf = NegInf"

fun uminus_number :: "number \<Rightarrow> number" where
  "uminus_number (Fin a) = Fin (- a)"
| "uminus_number PosInf = NegInf"
| "uminus_number NegInf = PosInf"
| "uminus_number NaN = NaN"

definition minus_number :: "number \<Rightarrow> number \<Rightarrow> number" where
  "minus_number a b = a + (- b)"

fun times_number :: "number \<Rightarrow> number \<Rightarrow> number" where
  "times_number (Fin a) (Fin b) = Fin (a * b)"
| "times_number PosInf b = times_infinity True b"
| "times_number NegInf b = times_infinity False b"
| "times_number NaN b = NaN"
| "times_number a PosInf = times_infinity True a"
| "times_number a NegInf = times_infinity False a"
| "times_number a NaN = NaN"

fun divide_number :: "number \<Rightarrow> number \<Rightarrow> number" where
  "divide_number (Fin a) (Fin b) =
     (if b = 0 then (if a = 0 then NaN else infinity (0 < a)) else Fin (a / b))"
| "divide_number NaN b = NaN"
| "divide_number a NaN = NaN"
| "divide_number (Fin a) b = Fin 0"
| "divide_number PosInf (Fin b) = infinity (0 \<le> b)"
| "divide_number NegInf (Fin b) = infinity (b < 0)"
| "divide_number PosInf PosInf = NaN"
| "divide_number PosInf NegInf = NaN"
| "divide_number NegInf PosInf = NaN"
| "divide_number NegInf NegInf = NaN"

definition inverse_number :: "number \<Rightarrow> number" where
  "inverse_number a = Fin 1 div a"

instance ..

end

text \<open>\<open>Math.sqrt\<close> and \<open>Math.max\<close> (of two arguments).\<close>

fun Math_sqrt :: "number \<Rightarrow> number" where
  "Math_sqrt (Fin a) = (if a < 0 then NaN else Fin (sqrt a))"
| "Math_sqrt PosInf = PosInf"
| "Math_sqrt NegInf = NaN"
| "Math_sqrt NaN = NaN"

fun Math_max :: "number \<Rightarrow> number \<Rightarrow> number" where
  "Math_max (Fin a) (Fin b) = Fin (max a b)"
| "Math_max NaN b = NaN"
| "Math_max a NaN = NaN"
| "Math_max PosInf b = PosInf"
| "Math_max a PosInf = PosInf"
| "Math_max NegInf b = b"
| "Math_max a NegInf = a"

text \<open>\<open>a || b\<close> on numbers: \<open>0\<close> and \<open>NaN\<close> are the falsy numbers.\<close>

definition or_else :: "number \<Rightarrow> number \<Rightarrow> number" where
  "or_else a b = (if a = Fin 0 \<or> a = NaN then b else a)"


section \<open>Vectors and the store\<close>

text \<open>
  A \<open>THREE.Vector3\<close> is a mutable object, and the methods the program calls
  (\<open>copy\<close>, \<open>sub\<close>, \<open>normalize\<close>, \<open>multiplyScalar\<close>, \<open>addScaledVector\<close>) change the
  receiver in place and return it (the methods are those of the three.js library, which
  the program imports). Vectors therefore live in a store, addressed by references; so do
  the \<open>Planet\<close> objects, which the global array \<open>planets\<close> holds by reference and the
  frame loop compares by identity.
\<close>

datatype vector3 = Vector3 number number number

type_synonym ref = nat

text \<open>
  The fields of a \<open>Planet\<close> that the simulation reads or writes. The scene objects (mesh
  geometry, materials, trace line, force arrows, atmosphere) are left out; of the mesh only
  its \<open>position\<close> vector is kept, as \<open>mesh_position\<close>.
\<close>

record planet =
  name :: string
  size_p :: number
  position :: ref
  velocity :: ref
  mass :: number
  forces :: "(string \<times> ref) list"
  mesh_position :: ref
  tracePoints :: "ref list"

text \<open>
  The field \<open>position\<close> is the vector the constructor was given and no method changes it;
  the position that \<open>attract\<close> reads and \<open>update\<close> moves is \<open>mesh_position\<close>.
\<close>

record state =
  vectors :: "ref \<Rightarrow> vector3"
  nvectors :: nat
  objects :: "ref \<Rightarrow> planet"
  nobjects :: nat
  planets :: "ref list"

text \<open>\<open>new THREE.Vector3(x, y, z)\<close>: the next free reference, holding the given value.\<close>

definition new_Vector3 :: "state \<Rightarrow> vector3 \<Rightarrow> ref \<times> state" where
  "new_Vector3 st v =
     (nvectors st, st\<lparr>vectors := (vectors st)(nvectors st := v), nvectors := Suc (nvectors st)\<rparr>)"

text \<open>What each method of \<open>Vector3\<close> computes, on the components.\<close>

fun vec_sub :: "vector3 \<Rightarrow> vector3 \<Rightarrow> vector3" where
  "vec_sub (Vector3 a b c) (Vector3 a' b' c') = Vector3 (a - a') (b - b') (c - c')"

fun vec_multiplyScalar :: "vector3 \<Rightarrow> number \<Rightarrow> vector3" where
  "vec_multiplyScalar (Vector3 a b c) s = Vector3 (a * s) (b * s) (c * s)"

fun vec_addScaledVector :: "vector3 \<Rightarrow> vector3 \<Rightarrow> number \<Rightarrow> vector3" where
  "vec_addScaledVector (Vector3 a b c) (Vector3 a' b' c') s =
     Vector3 (a + a' * s) (b + b' * s) (c + c' * s)"

fun vec_length :: "vector3 \<Rightarrow> number" where
  "vec_length (Vector3 a b c) = Math_sqrt (a * a + b * b + c * c)"

fun vec_distanceToSquared :: "vector3 \<Rightarrow> vector3 \<Rightarrow> number" where
  "vec_distanceToSquared (Vector3 a b c) (Vector3 a' b' c') =
     (let dx = a - a'; dy = b - b'; dz = c - c' in dx * dx + dy * dy + dz * dz)"

definition vec_divideScalar :: "vector3 \<Rightarrow> number \<Rightarrow> vector3" where
  "vec_divideScalar v s = vec_multiplyScalar v (Fin 1 / s)"

definition vec_normalize :: "vector3 \<Rightarrow> vector3" where
  "vec_normalize v = vec_divideScalar v (or_else (vec_length v) (Fin 1))"

text \<open>The methods on the store. Each one returns the receiver, so only the store is returned.\<close>

definition copy :: "state \<Rightarrow> ref \<Rightarrow> ref \<Rightarrow> state" where
  "copy st this v = st\<lparr>vectors := (vectors st)(this := vectors st v)\<rparr>"

definition sub :: "state \<Rightarrow> ref \<Rightarrow> ref \<Rightarrow> state" where
  "sub st this v = st\<lparr>vectors := (vectors st)(this := vec_sub (vectors st this) (vectors st v))\<rparr>"

definition normalize :: "state \<Rightarrow> ref \<Rightarrow> state" where
  "normalize st this = st\<lparr>vectors := (vectors st)(this := vec_normalize (vectors st this))\<rparr>"

definition multiplyScalar :: "state \<Rightarrow> ref \<Rightarrow> number \<Rightarrow> state" where
  "multiplyScalar st this s =
     st\<lparr>vectors := (vectors st)(this := vec_multiplyScalar (vectors st this) s)\<rparr>"

definition addScaledVector :: "state \<Rightarrow> ref \<Rightarrow> ref \<Rightarrow> number \<Rightarrow> state" where
  "addScaledVector st this v s =
     st\<lparr>vectors := (vectors st)(this := vec_addScaledVector (vectors st this) (vectors st v) s)\<rparr>"

definition distanceTo :: "state \<Rightarrow> ref \<Rightarrow> ref \<Rightarrow> number" where
  "distanceTo st this v = Math_sqrt (vec_distanceToSquared (vectors st this) (vectors st v))"

definition clone :: "state \<Rightarrow> ref \<Rightarrow> ref \<times> state" where
  "clone st this = new_Vector3 st (vectors st this)"

section \<open>The class Planet\<close>

text \<open>
  The constructor. It scales the caller's velocity vector in place and keeps the caller's
  two vectors by reference; the mesh gets a position vector of its own, set to the
  coordinates of \<open>position\<close>. The new object is pushed onto \<open>planets\<close>.
\<close>

definition Planet :: "state \<Rightarrow> string \<Rightarrow> number \<Rightarrow> ref \<Rightarrow> ref \<Rightarrow> number \<Rightarrow> ref \<times> state" where
  "Planet st nm sz pos vel m =
     (let st1 = multiplyScalar st vel (Fin 40000000);
          (mp, st2) = new_Vector3 st1 (vectors st1 pos);
          this = nobjects st2;
          obj = \<lparr>name = nm, size_p = sz, position = pos, velocity = vel, mass = m,
                 forces = [], mesh_position = mp, tracePoints = []\<rparr>
      in (this, st2\<lparr>objects := (objects st2)(this := obj), nobjects := Suc this,
                     planets := planets st2 @ [this]\<rparr>))"

text \<open>The constant \<open>G\<close> of \<open>attract\<close>, \<open>6.67e-11\<close>.\<close>

definition G :: real where
  "G = 667 / 10 ^ 13"

text \<open>
  \<open>attract(planet, dt)\<close>. The names \<open>dir\<close>, \<open>force\<close> and \<open>acceleration\<close> of the source are
  one and the same object: \<open>multiplyScalar\<close> returns its receiver.
\<close>

definition attract :: "state \<Rightarrow> ref \<Rightarrow> ref \<Rightarrow> number \<Rightarrow> state" where
  "attract st this planet dt =
     (let distance = Math_max (distanceTo st (mesh_position (objects st this))
                                             (mesh_position (objects st planet))) (Fin 1);
          (dir, st1) = new_Vector3 st (Vector3 (Fin 0) (Fin 0) (Fin 0));
          st2 = copy st1 dir (mesh_position (objects st1 planet));
          st3 = sub st2 dir (mesh_position (objects st2 this));
          st4 = normalize st3 dir;
          forceMagnitude = Fin G * mass (objects st4 this) * mass (objects st4 planet) /
                           (distance * distance);
          st5 = multiplyScalar st4 dir forceMagnitude;
          force = dir;
          st6 = multiplyScalar st5 force (Fin 1 / mass (objects st5 this));
          acceleration = force;
          st7 = addScaledVector st6 (velocity (objects st6 this)) acceleration dt;
          self = objects st7 this
      in st7\<lparr>objects := (objects st7)
           (this := self\<lparr>forces := AList.update (name (objects st7 planet)) force (forces self)\<rparr>)\<rparr>)"

text \<open>
  \<open>createForceArrow(force)\<close>: the arrow is a scene object; what remains is that
  \<open>force.normalize()\<close> changes the vector it is given.
\<close>

definition createForceArrow :: "state \<Rightarrow> ref \<Rightarrow> state" where
  "createForceArrow st force = normalize st force"

definition updateForceVisualization :: "state \<Rightarrow> ref \<Rightarrow> state" where
  "updateForceVisualization st this =
     foldl (\<lambda>s (planetName, force). createForceArrow s force) st (forces (objects st this))"

text \<open>
  \<open>update(dt)\<close>. The two variants of the program differ in the capacity of the trace
  (2500 and 1000) and in whether the force arrows exist; \<open>update_variant\<close> takes both as
  parameters.
\<close>

definition update_variant :: "nat \<Rightarrow> bool \<Rightarrow> state \<Rightarrow> ref \<Rightarrow> number \<Rightarrow> state" where
  "update_variant capacity arrows st this dt =
     (let st1 = addScaledVector st (mesh_position (objects st this)) (velocity (objects st this)) dt;
          (p, st2) = clone st1 (mesh_position (objects st1 this));
          pushed = tracePoints (objects st2 this) @ [p];
          shifted = (if length pushed > capacity then tl pushed else pushed);
          st3 = st2\<lparr>objects := (objects st2)(this := (objects st2 this)\<lparr>tracePoints := shifted\<rparr>)\<rparr>
      in if arrows then updateForceVisualization st3 this else st3)"

definition update :: "state \<Rightarrow> ref \<Rightarrow> number \<Rightarrow> state" where
  "update = update_variant 2500 True"

definition update_1000 :: "state \<Rightarrow> ref \<Rightarrow> number \<Rightarrow> state" where
  "update_1000 = update_variant 1000 False"

section \<open>Spawning and the frame loop\<close>

text \<open>
  \<open>spawnObject\<close>: the three numbers are the parsed form inputs; \<open>camera_position\<close> is the
  value of \<open>camera.position\<close> and \<open>camera_direction\<close> the value that
  \<open>camera.getWorldDirection\<close> writes into its argument.
\<close>

definition spawnObject :: "state \<Rightarrow> number \<Rightarrow> number \<Rightarrow> number \<Rightarrow> vector3 \<Rightarrow> vector3 \<Rightarrow> state" where
  "spawnObject st planetMass planetSize planetVelocity camera_position camera_direction =
     (let (obj_position, st1) = new_Vector3 st camera_position;
          (obj_velocity_dir, st2) = new_Vector3 st1 camera_direction;
          st3 = multiplyScalar st2 obj_velocity_dir planetVelocity;
          obj_velocity = obj_velocity_dir;
          (object, st4) = Planet st3 ''new planet'' planetSize obj_position obj_velocity planetMass
      in st4\<lparr>planets := planets st4 @ [object]\<rparr>)"

text \<open>
  The simulation part of \<open>animate\<close>, for the time step \<open>dt\<close> it has computed: the two nested
  \<open>forEach\<close> loops over \<open>planets\<close>. \<open>body !== otherBody\<close> compares references.
\<close>

definition attract_others :: "number \<Rightarrow> ref list \<Rightarrow> state \<Rightarrow> ref \<Rightarrow> state" where
  "attract_others dt others st body =
     foldl (\<lambda>s otherBody. if body \<noteq> otherBody then attract s body otherBody dt else s) st others"

definition animate :: "state \<Rightarrow> number \<Rightarrow> state" where
  "animate st dt =
     foldl (\<lambda>s body. update (attract_others dt (planets st) s body) body dt) st (planets st)"

section \<open>Derived notions\<close>

subsection \<open>The values attract and update compute\<close>

text \<open>
  The values of the local constants \<open>distance\<close> and \<open>forceMagnitude\<close> in a call of
  \<open>attract\<close> on the store \<open>st\<close>: both read only the two mesh positions and the two masses.
\<close>

definition attract_distance :: "state \<Rightarrow> ref \<Rightarrow> ref \<Rightarrow> number" where
  "attract_distance st this planet =
     Math_max (distanceTo st (mesh_position (objects st this))
                             (mesh_position (objects st planet))) (Fin 1)"

definition attract_forceMagnitude :: "state \<Rightarrow> ref \<Rightarrow> ref \<Rightarrow> number" where
  "attract_forceMagnitude st this planet =
     (let distance = attract_distance st this planet
      in Fin G * mass (objects st this) * mass (objects st planet) / (distance * distance))"

text \<open>
  The value that \<open>attract\<close> leaves in the vector it allocates: the unit direction, scaled
  by \<open>forceMagnitude\<close> and then by \<open>1 / this.mass\<close>.
\<close>

definition attract_acceleration :: "state \<Rightarrow> ref \<Rightarrow> ref \<Rightarrow> vector3" where
  "attract_acceleration st this planet =
     vec_multiplyScalar
       (vec_multiplyScalar
          (vec_normalize (vec_sub (vectors st (mesh_position (objects st planet)))
                                  (vectors st (mesh_position (objects st this)))))
          (attract_forceMagnitude st this planet))
       (Fin 1 / mass (objects st this))"

text \<open>The value that \<open>update\<close> gives to the position of the mesh.\<close>

definition position_after_update :: "state \<Rightarrow> ref \<Rightarrow> number \<Rightarrow> vector3" where
  "position_after_update st this dt =
     vec_addScaledVector (vectors st (mesh_position (objects st this)))
                         (vectors st (velocity (objects st this))) dt"

text \<open>\<open>push\<close> followed by the conditional \<open>shift\<close>, on any list.\<close>

definition push_shift :: "nat \<Rightarrow> 'a list \<Rightarrow> 'a \<Rightarrow> 'a list" where
  "push_shift capacity xs x = (if length (xs @ [x]) > capacity then tl (xs @ [x]) else xs @ [x])"

text \<open>The Euclidean distance of two points, over the reals.\<close>

definition distance3 :: "real \<Rightarrow> real \<Rightarrow> real \<Rightarrow> real \<Rightarrow> real \<Rightarrow> real \<Rightarrow> real" where
  "distance3 a1 a2 a3 b1 b2 b3 = sqrt ((b1 - a1)\<^sup>2 + (b2 - a2)\<^sup>2 + (b3 - a3)\<^sup>2)"

text \<open>A vector all of whose components are finite numbers.\<close>

fun vec_finite :: "vector3 \<Rightarrow> bool" where
  "vec_finite (Vector3 a b c) \<longleftrightarrow> isFinite a \<and> isFinite b \<and> isFinite c"

subsection \<open>Well-formed stores\<close>

text \<open>
  The references a planet holds, and the stores in which every vector has one owner: the
  references of each planet are distinct and allocated, no two planets share one, and
  \<open>planets\<close> holds allocated objects. The stores the program builds are of this kind.
\<close>

definition refs_of :: "planet \<Rightarrow> ref list" where
  "refs_of p = position p # velocity p # mesh_position p # (map snd (forces p) @ tracePoints p)"

definition well_formed :: "state \<Rightarrow> bool" where
  "well_formed st \<longleftrightarrow>
     (\<forall>a<nobjects st. distinct (refs_of (objects st a))) \<and>
     (\<forall>a<nobjects st. \<forall>r\<in>set (refs_of (objects st a)). r < nvectors st) \<and>
     (\<forall>a<nobjects st. \<forall>b<nobjects st. a \<noteq> b \<longrightarrow>
        set (refs_of (objects st a)) \<inter> set (refs_of (objects st b)) = {}) \<and>
     (\<forall>b\<in>set (planets st). b < nobjects st)"

subsection \<open>Sequences of calls\<close>

text \<open>
  The values of the trace of a planet, oldest first; the last \<open>n\<close> elements of a list; the
  store after a sequence of \<open>update\<close> calls on one planet (\<open>upd\<close> is the variant of
  \<open>update\<close>), and the positions these calls reach, in order.
\<close>

definition trace_values :: "state \<Rightarrow> ref \<Rightarrow> vector3 list" where
  "trace_values st a = map (vectors st) (tracePoints (objects st a))"

definition lastn :: "nat \<Rightarrow> 'a list \<Rightarrow> 'a list" where
  "lastn n xs = drop (length xs - n) xs"

fun updates :: "(state \<Rightarrow> ref \<Rightarrow> number \<Rightarrow> state) \<Rightarrow> state \<Rightarrow> ref \<Rightarrow> number list \<Rightarrow> state" where
  "updates upd st a [] = st"
| "updates upd st a (dt # dts) = updates upd (upd st a dt) a dts"

fun appended :: "(state \<Rightarrow> ref \<Rightarrow> number \<Rightarrow> state) \<Rightarrow> state \<Rightarrow> ref \<Rightarrow> number list \<Rightarrow> vector3 list" where
  "appended upd st a [] = []"
| "appended upd st a (dt # dts) =
     vectors (upd st a dt) (mesh_position (objects (upd st a dt) a)) #
     appended upd (upd st a dt) a dts"

text \<open>
  The calls of one frame, as the specification describes them: for each body of the
  collection, in order, \<open>attract\<close> with every other body, in order, and then \<open>update\<close>.
  \<open>run\<close> performs a list of calls with the time step of the frame.
\<close>

datatype call = Attract ref ref | Update ref

fun run_call :: "number \<Rightarrow> state \<Rightarrow> call \<Rightarrow> state" where
  "run_call dt st (Attract body other) = attract st body other dt"
| "run_call dt st (Update body) = update st body dt"

definition run :: "number \<Rightarrow> state \<Rightarrow> call list \<Rightarrow> state" where
  "run dt st calls = foldl (run_call dt) st calls"

definition body_calls :: "ref list \<Rightarrow> ref \<Rightarrow> call list" where
  "body_calls bodies body =
     map (Attract body) (filter (\<lambda>other. other \<noteq> body) bodies) @ [Update body]"

definition frame_calls :: "ref list \<Rightarrow> call list" where
  "frame_calls bodies = concat (map (body_calls bodies) bodies)"

text \<open>The objects a call is made on.\<close>

fun call_refs :: "call \<Rightarrow> ref list" where
  "call_refs (Attract body other) = [body, other]"
| "call_refs (Update body) = [body]"

subsection \<open>Example stores\<close>

text \<open>
  The top-level statements \<open>const sun = new Planet('Sun', 20, sunTexture,
  new THREE.Vector3(..), new THREE.Vector3(..), 1.989e30, ..)\<close>: two fresh vectors and the
  constructor. \<open>initial\<close> is the store before the first of them; its unallocated cells
  hold arbitrary values.
\<close>

definition initial :: state where
  "initial = \<lparr>vectors = (\<lambda>r. Vector3 (Fin 0) (Fin 0) (Fin 0)), nvectors = 0,
     objects = (\<lambda>r. \<lparr>name = [], size_p = Fin 0, position = 0, velocity = 0, mass = Fin 0,
                        forces = [], mesh_position = 0, tracePoints = []\<rparr>),
     nobjects = 0, planets = []\<rparr>"

definition new_Planet :: "state \<Rightarrow> string \<Rightarrow> number \<Rightarrow> vector3 \<Rightarrow> vector3 \<Rightarrow> number \<Rightarrow> ref \<times> state" where
  "new_Planet st nm sz p v m =
     (let (pos, st1) = new_Vector3 st p;
          (vel, st2) = new_Vector3 st1 v
      in Planet st2 nm sz pos vel m)"

text \<open>
  Two planets \<open>A\<close> and \<open>B\<close> at rest, created one after the other in the empty store, as
  the top-level statements of the program create the Sun and the planets.
\<close>

definition two_bodies :: "vector3 \<Rightarrow> number \<Rightarrow> vector3 \<Rightarrow> number \<Rightarrow> state" where
  "two_bodies pA mA pB mB =
     snd (new_Planet (snd (new_Planet initial ''A'' (Fin 1) pA (Vector3 (Fin 0) (Fin 0) (Fin 0)) mA))
            ''B'' (Fin 1) pB (Vector3 (Fin 0) (Fin 0) (Fin 0)) mB)"

text \<open>\<open>A\<close> of mass 2 at the origin and \<open>B\<close> of mass 3 at \<open>(2, 0, 0)\<close>.\<close>

definition example_pair :: state where
  "example_pair = two_bodies (Vector3 (Fin 0) (Fin 0) (Fin 0)) (Fin 2)
                             (Vector3 (Fin 2) (Fin 0) (Fin 0)) (Fin 3)"

text \<open>Both planets at the origin; \<open>A\<close> of mass \<open>-2\<close>; \<open>A\<close> of mass \<open>0\<close>.\<close>

definition example_coincident :: state where
  "example_coincident = two_bodies (Vector3 (Fin 0) (Fin 0) (Fin 0)) (Fin 2)
                                   (Vector3 (Fin 0) (Fin 0) (Fin 0)) (Fin 3)"

definition example_negative :: state where
  "example_negative = two_bodies (Vector3 (Fin 0) (Fin 0) (Fin 0)) (Fin (- 2))
                                 (Vector3 (Fin 2) (Fin 0) (Fin 0)) (Fin 3)"

definition example_massless :: state where
  "example_massless = two_bodies (Vector3 (Fin 0) (Fin 0) (Fin 0)) (Fin 0)
                                 (Vector3 (Fin 2) (Fin 0) (Fin 0)) (Fin 3)"

text \<open>\<open>B\<close> at distance \<open>0.0001\<close> from \<open>A\<close>, and at distance 1.\<close>

definition example_close :: state where
  "example_close = two_bodies (Vector3 (Fin 0) (Fin 0) (Fin 0)) (Fin 2)
                              (Vector3 (Fin (1 / 10000)) (Fin 0) (Fin 0)) (Fin 3)"

definition example_unit :: state where
  "example_unit = two_bodies (Vector3 (Fin 0) (Fin 0) (Fin 0)) (Fin 2)
                             (Vector3 (Fin 1) (Fin 0) (Fin 0)) (Fin 3)"

text \<open>The store after \<open>A.attract(B, 1)\<close> on the example.\<close>

definition example_attracted :: state where
  "example_attracted = attract example_pair 0 1 (Fin 1)"

text \<open>
  \<open>A\<close> of mass \<open>4 / G\<close> at the origin and \<open>B\<close> of mass \<open>9 / G\<close> at \<open>(3, 0, 0)\<close>, and the
  same store with the two planets in the other order in \<open>planets\<close>.
\<close>

definition example_order :: state where
  "example_order = two_bodies (Vector3 (Fin 0) (Fin 0) (Fin 0)) (Fin (4 / G))
                              (Vector3 (Fin 3) (Fin 0) (Fin 0)) (Fin (9 / G))"

definition example_reversed :: state where
  "example_reversed = example_order\<lparr>planets := [1, 0]\<rparr>"

section \<open>The effect of the methods on the store\<close>

lemma attract_nvectors: "nvectors (attract st a b dt) = Suc (nvectors st)"
  by (simp add: attract_def new_Vector3_def copy_def sub_def normalize_def multiplyScalar_def
      addScaledVector_def Let_def)

lemma attract_nobjects: "nobjects (attract st a b dt) = nobjects st"
  by (simp add: attract_def new_Vector3_def copy_def sub_def normalize_def multiplyScalar_def
      addScaledVector_def Let_def)

lemma attract_planets: "planets (attract st a b dt) = planets st"
  by (simp add: attract_def new_Vector3_def copy_def sub_def normalize_def multiplyScalar_def
      addScaledVector_def Let_def)

lemma attract_objects:
  "objects (attract st a b dt) =
     (objects st)(a := (objects st a)\<lparr>forces :=
        AList.update (name (objects st b)) (nvectors st) (forces (objects st a))\<rparr>)"
  by (simp add: attract_def new_Vector3_def copy_def sub_def normalize_def multiplyScalar_def
      addScaledVector_def Let_def)

lemma attract_vectors:
  assumes "mesh_position (objects st a) \<noteq> nvectors st"
    and "mesh_position (objects st b) \<noteq> nvectors st"
    and "velocity (objects st a) \<noteq> nvectors st"
  shows "vectors (attract st a b dt) =
     (vectors st)(nvectors st := attract_acceleration st a b,
        velocity (objects st a) :=
          vec_addScaledVector (vectors st (velocity (objects st a))) (attract_acceleration st a b) dt)"
  using assms
  by (auto simp: attract_def new_Vector3_def copy_def sub_def normalize_def multiplyScalar_def
      addScaledVector_def Let_def attract_acceleration_def attract_forceMagnitude_def
      attract_distance_def distanceTo_def fun_eq_iff)

lemma arrows_fields:
  "nvectors (foldl (\<lambda>s (planetName, force). createForceArrow s force) st fs) = nvectors st"
  "nobjects (foldl (\<lambda>s (planetName, force). createForceArrow s force) st fs) = nobjects st"
  "objects (foldl (\<lambda>s (planetName, force). createForceArrow s force) st fs) = objects st"
  "planets (foldl (\<lambda>s (planetName, force). createForceArrow s force) st fs) = planets st"
  by (induction fs arbitrary: st; simp add: createForceArrow_def normalize_def split_def)+

lemma arrows_vectors_other:
  "r \<notin> snd ` set fs \<Longrightarrow>
   vectors (foldl (\<lambda>s (planetName, force). createForceArrow s force) st fs) r = vectors st r"
  by (induction fs arbitrary: st) (auto simp: createForceArrow_def normalize_def split_def)

lemma arrows_vectors_force:
  "distinct (map snd fs) \<Longrightarrow> r \<in> snd ` set fs \<Longrightarrow>
   vectors (foldl (\<lambda>s (planetName, force). createForceArrow s force) st fs) r =
     vec_normalize (vectors st r)"
proof (induction fs arbitrary: st)
  case Nil
  then show ?case by simp
next
  case (Cons kf fs)
  let ?F = "\<lambda>s (planetName, force). createForceArrow s force"
  have step: "foldl ?F st (kf # fs) = foldl ?F (?F st kf) fs" by simp
  show ?case
  proof (cases "r = snd kf")
    case True
    with Cons.prems have "r \<notin> snd ` set fs" by auto
    then have "vectors (foldl ?F (?F st kf) fs) r = vectors (?F st kf) r"
      by (rule arrows_vectors_other)
    also have "\<dots> = vec_normalize (vectors st r)"
      using True by (simp add: split_def createForceArrow_def normalize_def)
    finally show ?thesis unfolding step .
  next
    case False
    with Cons.prems have "r \<in> snd ` set fs" "distinct (map snd fs)" by auto
    then have "vectors (foldl ?F (?F st kf) fs) r = vec_normalize (vectors (?F st kf) r)"
      by (intro Cons.IH)
    also have "\<dots> = vec_normalize (vectors st r)"
      using False by (simp add: split_def createForceArrow_def normalize_def)
    finally show ?thesis unfolding step .
  qed
qed

lemma updateForceVisualization_vectors_other:
  "r \<notin> snd ` set (forces (objects st a)) \<Longrightarrow>
   vectors (updateForceVisualization st a) r = vectors st r"
  unfolding updateForceVisualization_def by (rule arrows_vectors_other)

lemma updateForceVisualization_vectors_force:
  "distinct (map snd (forces (objects st a))) \<Longrightarrow> r \<in> snd ` set (forces (objects st a)) \<Longrightarrow>
   vectors (updateForceVisualization st a) r = vec_normalize (vectors st r)"
  unfolding updateForceVisualization_def by (rule arrows_vectors_force)

lemma updateForceVisualization_fields:
  "nvectors (updateForceVisualization st a) = nvectors st"
  "nobjects (updateForceVisualization st a) = nobjects st"
  "objects (updateForceVisualization st a) = objects st"
  "planets (updateForceVisualization st a) = planets st"
  by (simp_all add: updateForceVisualization_def arrows_fields)

lemma update_variant_nvectors: "nvectors (update_variant c ar st a dt) = Suc (nvectors st)"
  by (simp add: update_variant_def clone_def new_Vector3_def addScaledVector_def Let_def
      updateForceVisualization_fields)

lemma update_variant_nobjects: "nobjects (update_variant c ar st a dt) = nobjects st"
  by (simp add: update_variant_def clone_def new_Vector3_def addScaledVector_def Let_def
      updateForceVisualization_fields)

lemma update_variant_planets: "planets (update_variant c ar st a dt) = planets st"
  by (simp add: update_variant_def clone_def new_Vector3_def addScaledVector_def Let_def
      updateForceVisualization_fields)

lemma update_variant_objects:
  "objects (update_variant c ar st a dt) =
     (objects st)(a := (objects st a)\<lparr>tracePoints :=
        push_shift c (tracePoints (objects st a)) (nvectors st)\<rparr>)"
  by (simp add: update_variant_def clone_def new_Vector3_def addScaledVector_def Let_def
      updateForceVisualization_fields push_shift_def)

lemma update_variant_vectors:
  assumes "ar \<Longrightarrow> r \<notin> snd ` set (forces (objects st a))"
  shows "vectors (update_variant c ar st a dt) r =
     ((vectors st)(mesh_position (objects st a) := position_after_update st a dt,
                   nvectors st := position_after_update st a dt)) r"
proof (cases ar)
  case True
  with assms have "r \<notin> snd ` set (forces (objects st a))" by simp
  with True show ?thesis
    by (simp add: update_variant_def clone_def new_Vector3_def addScaledVector_def Let_def
        updateForceVisualization_vectors_other position_after_update_def)
next
  case False
  then show ?thesis
    by (simp add: update_variant_def clone_def new_Vector3_def addScaledVector_def Let_def
        position_after_update_def)
qed

lemma update_variant_vectors_force:
  assumes "ar" "distinct (map snd (forces (objects st a)))"
    and "r \<in> snd ` set (forces (objects st a))"
  shows "vectors (update_variant c ar st a dt) r =
     vec_normalize (((vectors st)(mesh_position (objects st a) := position_after_update st a dt,
                   nvectors st := position_after_update st a dt)) r)"
  using assms
  by (simp add: update_variant_def clone_def new_Vector3_def addScaledVector_def Let_def
      updateForceVisualization_vectors_force position_after_update_def)

lemma set_update_values: "snd ` set (AList.update k v fs) \<subseteq> insert v (snd ` set fs)"
  by (induction fs) auto

lemma distinct_update_values:
  "distinct (map snd fs) \<Longrightarrow> v \<notin> snd ` set fs \<Longrightarrow> distinct (map snd (AList.update k v fs))"
proof (induction fs)
  case Nil
  then show ?case by simp
next
  case (Cons kf fs)
  have "snd ` set (AList.update k v fs) \<subseteq> insert v (snd ` set fs)"
    by (rule set_update_values)
  with Cons show ?case by (cases kf) auto
qed

lemma set_push_shift: "set (push_shift c xs x) \<subseteq> insert x (set xs)"
  by (cases xs) (auto simp: push_shift_def)

lemma distinct_push_shift: "distinct xs \<Longrightarrow> x \<notin> set xs \<Longrightarrow> distinct (push_shift c xs x)"
  by (cases xs) (auto simp: push_shift_def)

lemma refs_of_forces_update:
  "set (refs_of (p\<lparr>forces := AList.update k n (forces p)\<rparr>)) \<subseteq> insert n (set (refs_of p))"
proof -
  have "snd ` set (AList.update k n (forces p)) \<subseteq> insert n (snd ` set (forces p))"
    by (rule set_update_values)
  then show ?thesis unfolding refs_of_def by simp blast
qed

lemma distinct_refs_replace:
  assumes "distinct (a # b # c # (F @ T))" "distinct F'" "set F' \<subseteq> insert n (set F)"
    and "n \<notin> set (a # b # c # (F @ T))"
  shows "distinct (a # b # c # (F' @ T))"
  using assms by auto

lemma distinct_refs_replace_trace:
  assumes "distinct (a # b # c # (F @ T))" "distinct T'" "set T' \<subseteq> insert n (set T)"
    and "n \<notin> set (a # b # c # (F @ T))"
  shows "distinct (a # b # c # (F @ T'))"
  using assms by auto

lemma distinct_refs_of_forces_update:
  assumes "distinct (refs_of p)" "n \<notin> set (refs_of p)"
  shows "distinct (refs_of (p\<lparr>forces := AList.update k n (forces p)\<rparr>))"
proof -
  have d: "distinct (position p # velocity p # mesh_position p #
      (map snd (forces p) @ tracePoints p))"
    and n: "n \<notin> set (position p # velocity p # mesh_position p #
      (map snd (forces p) @ tracePoints p))"
    using assms unfolding refs_of_def by blast+
  have "distinct (map snd (forces p))" "n \<notin> snd ` set (forces p)"
    using d n by simp_all
  then have d': "distinct (map snd (AList.update k n (forces p)))"
    by (rule distinct_update_values)
  have s: "set (map snd (AList.update k n (forces p))) \<subseteq> insert n (set (map snd (forces p)))"
    using set_update_values [of k n "forces p"] by simp
  have "distinct (position p # velocity p # mesh_position p #
      (map snd (AList.update k n (forces p)) @ tracePoints p))"
    by (rule distinct_refs_replace [OF d d' s n])
  then show ?thesis by (simp add: refs_of_def)
qed

lemma distinct_refs_of_tracePoints_push:
  assumes "distinct (refs_of p)" "n \<notin> set (refs_of p)"
  shows "distinct (refs_of (p\<lparr>tracePoints := push_shift c (tracePoints p) n\<rparr>))"
proof -
  have d: "distinct (position p # velocity p # mesh_position p #
      (map snd (forces p) @ tracePoints p))"
    and n: "n \<notin> set (position p # velocity p # mesh_position p #
      (map snd (forces p) @ tracePoints p))"
    using assms unfolding refs_of_def by blast+
  have "distinct (tracePoints p)" "n \<notin> set (tracePoints p)"
    using d n by simp_all
  then have d': "distinct (push_shift c (tracePoints p) n)"
    by (rule distinct_push_shift)
  have s: "set (push_shift c (tracePoints p) n) \<subseteq> insert n (set (tracePoints p))"
    by (rule set_push_shift)
  have "distinct (position p # velocity p # mesh_position p #
      (map snd (forces p) @ push_shift c (tracePoints p) n))"
    by (rule distinct_refs_replace_trace [OF d d' s n])
  then show ?thesis by (simp add: refs_of_def)
qed

lemma refs_of_tracePoints_push:
  "set (refs_of (p\<lparr>tracePoints := push_shift c (tracePoints p) n\<rparr>)) \<subseteq> insert n (set (refs_of p))"
proof -
  have "set (push_shift c (tracePoints p) n) \<subseteq> insert n (set (tracePoints p))"
    by (rule set_push_shift)
  then show ?thesis unfolding refs_of_def by simp blast
qed

text \<open>Replacing one object by one whose references are the old ones and the fresh one.\<close>

lemma well_formed_replace:
  assumes wf: "well_formed st" and a: "a < nobjects st"
    and sub: "set (refs_of p') \<subseteq> insert (nvectors st) (set (refs_of (objects st a)))"
    and dist: "distinct (refs_of p')"
    and st': "objects st' = (objects st)(a := p')" "nvectors st' = Suc (nvectors st)"
      "nobjects st' = nobjects st" "planets st' = planets st"
  shows "well_formed st'"
proof -
  have bound: "\<And>b r. b < nobjects st \<Longrightarrow> r \<in> set (refs_of (objects st b)) \<Longrightarrow> r < nvectors st"
    using wf by (auto simp: well_formed_def)
  have sep: "\<And>b c. b < nobjects st \<Longrightarrow> c < nobjects st \<Longrightarrow> b \<noteq> c \<Longrightarrow>
      set (refs_of (objects st b)) \<inter> set (refs_of (objects st c)) = {}"
    using wf by (auto simp: well_formed_def)
  have fresh: "\<And>b. b < nobjects st \<Longrightarrow> nvectors st \<notin> set (refs_of (objects st b))"
    using bound by blast
  have 1: "\<forall>b<nobjects st'. distinct (refs_of (objects st' b))"
    using wf dist by (auto simp: st' well_formed_def)
  have 2: "\<forall>b<nobjects st'. \<forall>r\<in>set (refs_of (objects st' b)). r < nvectors st'"
  proof (intro allI impI ballI)
    fix b r assume b: "b < nobjects st'" and r: "r \<in> set (refs_of (objects st' b))"
    show "r < nvectors st'"
    proof (cases "b = a")
      case True
      with r sub have "r = nvectors st \<or> r \<in> set (refs_of (objects st a))" by (auto simp: st')
      then show ?thesis
      proof
        assume "r = nvectors st"
        then show ?thesis by (simp add: st')
      next
        assume "r \<in> set (refs_of (objects st a))"
        with bound [OF a] have "r < nvectors st" by blast
        then show ?thesis by (simp add: st')
      qed
    next
      case False
      with r b bound [of b r] show ?thesis by (simp add: st')
    qed
  qed
  have 3: "\<forall>b<nobjects st'. \<forall>c<nobjects st'. b \<noteq> c \<longrightarrow>
      set (refs_of (objects st' b)) \<inter> set (refs_of (objects st' c)) = {}"
  proof (intro allI impI)
    fix b c assume b: "b < nobjects st'" and c: "c < nobjects st'" and bc: "b \<noteq> c"
    have *: "set (refs_of p') \<inter> set (refs_of (objects st d)) = {}"
      if "d < nobjects st" "d \<noteq> a" for d
      using sub sep [OF a that(1)] fresh [OF that(1)] that(2) by auto
    show "set (refs_of (objects st' b)) \<inter> set (refs_of (objects st' c)) = {}"
      using b c bc * [of b] * [of c] sep [of b c] by (auto simp: st')
  qed
  have 4: "\<forall>b\<in>set (planets st'). b < nobjects st'"
    using wf by (auto simp: st' well_formed_def)
  from 1 2 3 4 show ?thesis unfolding well_formed_def by blast
qed

lemma well_formed_attract:
  assumes "well_formed st" "a < nobjects st"
  shows "well_formed (attract st a b dt)"
proof (rule well_formed_replace [OF assms])
  have fresh: "nvectors st \<notin> set (refs_of (objects st a))"
    using assms by (auto simp: well_formed_def)
  show "set (refs_of (objects st a\<lparr>forces := AList.update (name (objects st b)) (nvectors st)
      (forces (objects st a))\<rparr>)) \<subseteq> insert (nvectors st) (set (refs_of (objects st a)))"
    by (rule refs_of_forces_update)
  show "distinct (refs_of (objects st a\<lparr>forces := AList.update (name (objects st b)) (nvectors st)
      (forces (objects st a))\<rparr>))"
    using assms fresh by (intro distinct_refs_of_forces_update) (auto simp: well_formed_def)
qed (simp_all add: attract_objects attract_nvectors attract_nobjects attract_planets)

lemma well_formed_update_variant:
  assumes "well_formed st" "a < nobjects st"
  shows "well_formed (update_variant c ar st a dt)"
proof (rule well_formed_replace [OF assms])
  have fresh: "nvectors st \<notin> set (refs_of (objects st a))"
    using assms by (auto simp: well_formed_def)
  show "set (refs_of (objects st a\<lparr>tracePoints := push_shift c (tracePoints (objects st a))
      (nvectors st)\<rparr>)) \<subseteq> insert (nvectors st) (set (refs_of (objects st a)))"
    by (rule refs_of_tracePoints_push)
  show "distinct (refs_of (objects st a\<lparr>tracePoints := push_shift c (tracePoints (objects st a))
      (nvectors st)\<rparr>))"
    using assms fresh by (intro distinct_refs_of_tracePoints_push) (auto simp: well_formed_def)
qed (simp_all add: update_variant_objects update_variant_nvectors update_variant_nobjects
    update_variant_planets)

section \<open>The example stores\<close>

lemma two_bodies_fields:
  "nvectors (two_bodies pA mA pB mB) = 6"
  "nobjects (two_bodies pA mA pB mB) = 2"
  "planets (two_bodies pA mA pB mB) = [0, 1]"
  "objects (two_bodies pA mA pB mB) 0 =
     \<lparr>name = ''A'', size_p = Fin 1, position = 0, velocity = 1, mass = mA, forces = [],
      mesh_position = 2, tracePoints = []\<rparr>"
  "objects (two_bodies pA mA pB mB) (Suc 0) =
     \<lparr>name = ''B'', size_p = Fin 1, position = 3, velocity = 4, mass = mB, forces = [],
      mesh_position = 5, tracePoints = []\<rparr>"
  "vectors (two_bodies pA mA pB mB) 0 = pA"
  "vectors (two_bodies pA mA pB mB) (Suc 0) = Vector3 (Fin 0) (Fin 0) (Fin 0)"
  "vectors (two_bodies pA mA pB mB) 2 = pA"
  "vectors (two_bodies pA mA pB mB) 3 = pB"
  "vectors (two_bodies pA mA pB mB) 4 = Vector3 (Fin 0) (Fin 0) (Fin 0)"
  "vectors (two_bodies pA mA pB mB) 5 = pB"
  by (simp_all add: two_bodies_def new_Planet_def initial_def Planet_def new_Vector3_def
      multiplyScalar_def Let_def)

lemma well_formed_two_bodies: "well_formed (two_bodies pA mA pB mB)"
  unfolding well_formed_def
  by (simp add: two_bodies_fields refs_of_def less_Suc_eq numeral_2_eq_2)

section \<open>What attract leaves alone\<close>

text \<open>
  Claim C10. In a well-formed store, \<open>body.attract(other, dt)\<close> on two different planets
  changes nothing but the value of the body's velocity vector and the entry
  \<open>forces[other.name]\<close> of the body: the body keeps its name, size, mass, its position,
  velocity and mesh position references and its trace; every other key of its \<open>forces\<close>
  keeps its entry; every vector the body refers to, except the velocity, keeps its value;
  the other planet, and every vector it refers to (position, velocity, forces, trace), is
  unchanged; so are all other objects, all other vectors that existed, and \<open>planets\<close>.
\<close>

theorem attract_frame:
  assumes wf: "well_formed st" and a: "a < nobjects st" and b: "b < nobjects st" and ab: "a \<noteq> b"
  shows "objects (attract st a b dt) a =
           (objects st a)\<lparr>forces := forces (objects (attract st a b dt) a)\<rparr> \<and>
         (\<forall>k. k \<noteq> name (objects st b) \<longrightarrow>
            map_of (forces (objects (attract st a b dt) a)) k = map_of (forces (objects st a)) k) \<and>
         (\<forall>r\<in>set (refs_of (objects st a)). r \<noteq> velocity (objects st a) \<longrightarrow>
            vectors (attract st a b dt) r = vectors st r) \<and>
         objects (attract st a b dt) b = objects st b \<and>
         (\<forall>r\<in>set (refs_of (objects st b)). vectors (attract st a b dt) r = vectors st r) \<and>
         (\<forall>c. c \<noteq> a \<longrightarrow> objects (attract st a b dt) c = objects st c) \<and>
         (\<forall>r<nvectors st. r \<noteq> velocity (objects st a) \<longrightarrow>
            vectors (attract st a b dt) r = vectors st r) \<and>
         planets (attract st a b dt) = planets st"
proof -
  have bound: "\<And>c r. c < nobjects st \<Longrightarrow> r \<in> set (refs_of (objects st c)) \<Longrightarrow> r < nvectors st"
    using wf by (auto simp: well_formed_def)
  have "mesh_position (objects st a) < nvectors st" "mesh_position (objects st b) < nvectors st"
    "velocity (objects st a) < nvectors st"
    by (rule bound [OF a] bound [OF b], simp add: refs_of_def)+
  then have fresh: "mesh_position (objects st a) \<noteq> nvectors st"
    "mesh_position (objects st b) \<noteq> nvectors st" "velocity (objects st a) \<noteq> nvectors st"
    by simp_all
  note vec = attract_vectors [OF fresh]
  have old: "vectors (attract st a b dt) r = vectors st r"
    if "r < nvectors st" "r \<noteq> velocity (objects st a)" for r
    using that by (simp add: vec)
  have sep: "set (refs_of (objects st a)) \<inter> set (refs_of (objects st b)) = {}"
    using wf a b ab by (auto simp: well_formed_def)
  have "velocity (objects st a) \<in> set (refs_of (objects st a))" by (simp add: refs_of_def)
  with sep have vb: "velocity (objects st a) \<notin> set (refs_of (objects st b))" by blast
  have 1: "objects (attract st a b dt) a =
           (objects st a)\<lparr>forces := forces (objects (attract st a b dt) a)\<rparr>"
    by (simp add: attract_objects)
  have 2: "\<forall>k. k \<noteq> name (objects st b) \<longrightarrow>
            map_of (forces (objects (attract st a b dt) a)) k = map_of (forces (objects st a)) k"
    by (simp add: attract_objects update_conv')
  have 3: "\<forall>r\<in>set (refs_of (objects st a)). r \<noteq> velocity (objects st a) \<longrightarrow>
            vectors (attract st a b dt) r = vectors st r"
  proof (intro ballI impI)
    fix r assume "r \<in> set (refs_of (objects st a))" "r \<noteq> velocity (objects st a)"
    then show "vectors (attract st a b dt) r = vectors st r"
      using bound [OF a] by (intro old)
  qed
  have 4: "objects (attract st a b dt) b = objects st b"
    using ab by (simp add: attract_objects)
  have 5: "\<forall>r\<in>set (refs_of (objects st b)). vectors (attract st a b dt) r = vectors st r"
  proof (intro ballI)
    fix r assume r: "r \<in> set (refs_of (objects st b))"
    with vb have "r \<noteq> velocity (objects st a)" by auto
    with r show "vectors (attract st a b dt) r = vectors st r"
      using bound [OF b] by (intro old)
  qed
  have 6: "\<forall>c. c \<noteq> a \<longrightarrow> objects (attract st a b dt) c = objects st c"
    by (simp add: attract_objects)
  have 7: "\<forall>r<nvectors st. r \<noteq> velocity (objects st a) \<longrightarrow>
            vectors (attract st a b dt) r = vectors st r"
    using old by simp
  from 1 2 3 4 5 6 7 show ?thesis by (simp only: attract_planets simp_thms)
qed

theorem attract_frame_witness:
  "well_formed example_pair \<and> 0 < nobjects example_pair \<and> 1 < nobjects example_pair \<and>
   (0::nat) \<noteq> 1 \<and>
   objects (attract example_pair 0 1 (Fin 1)) 1 = objects example_pair 1 \<and>
   vectors (attract example_pair 0 1 (Fin 1)) 4 = vectors example_pair 4 \<and>
   vectors (attract example_pair 0 1 (Fin 1)) 2 = vectors example_pair 2 \<and>
   planets (attract example_pair 0 1 (Fin 1)) = planets example_pair"
proof -
  have wf: "well_formed example_pair"
    unfolding example_pair_def by (rule well_formed_two_bodies)
  have n: "0 < nobjects example_pair" "1 < nobjects example_pair" "(0::nat) \<noteq> 1"
    by (simp_all add: example_pair_def two_bodies_fields)
  show ?thesis
    using attract_frame [OF wf n, of "Fin 1"] wf n
    by (simp add: example_pair_def two_bodies_fields refs_of_def)
qed

section \<open>Finite arithmetic\<close>

lemma distance3_commute: "distance3 b1 b2 b3 a1 a2 a3 = distance3 a1 a2 a3 b1 b2 b3"
  by (simp add: distance3_def power2_commute)

lemma distance3_nonneg: "0 \<le> distance3 a1 a2 a3 b1 b2 b3"
  by (simp add: distance3_def)

lemma distance3_eq_0: "distance3 a1 a2 a3 b1 b2 b3 = 0 \<longleftrightarrow> a1 = b1 \<and> a2 = b2 \<and> a3 = b3"
proof -
  have "(b1 - a1)\<^sup>2 + (b2 - a2)\<^sup>2 + (b3 - a3)\<^sup>2 = 0 \<longleftrightarrow> b1 - a1 = 0 \<and> b2 - a2 = 0 \<and> b3 - a3 = 0"
    by (simp add: sum_power2_eq_zero_iff add_nonneg_eq_0_iff)
  then show ?thesis by (auto simp: distance3_def)
qed

lemma distance3_axis: "distance3 a 0 0 b 0 0 = \<bar>b - a\<bar>"
  by (simp add: distance3_def)

lemma vec_sub_Fin:
  "vec_sub (Vector3 (Fin b1) (Fin b2) (Fin b3)) (Vector3 (Fin a1) (Fin a2) (Fin a3)) =
     Vector3 (Fin (b1 - a1)) (Fin (b2 - a2)) (Fin (b3 - a3))"
  by (simp add: minus_number_def)

lemma vec_length_Fin:
  "vec_length (Vector3 (Fin x) (Fin y) (Fin z)) = Fin (sqrt (x\<^sup>2 + y\<^sup>2 + z\<^sup>2))"
proof -
  have "\<not> x * x + y * y + z * z < 0"
    by (simp add: not_less add_nonneg_nonneg)
  then show ?thesis by (simp add: power2_eq_square)
qed

lemma vec_normalize_Fin:
  "vec_normalize (Vector3 (Fin x) (Fin y) (Fin z)) =
     (let l = sqrt (x\<^sup>2 + y\<^sup>2 + z\<^sup>2); s = (if l = 0 then 1 else l)
      in Vector3 (Fin (x * (1 / s))) (Fin (y * (1 / s))) (Fin (z * (1 / s))))"
  unfolding vec_normalize_def vec_length_Fin
  by (simp add: or_else_def vec_divideScalar_def Let_def)

lemma distanceTo_Fin:
  assumes "vectors st r = Vector3 (Fin a1) (Fin a2) (Fin a3)"
    and "vectors st r' = Vector3 (Fin b1) (Fin b2) (Fin b3)"
  shows "distanceTo st r r' = Fin (distance3 a1 a2 a3 b1 b2 b3)"
proof -
  have "\<not> (a1 - b1) * (a1 - b1) + (a2 - b2) * (a2 - b2) + (a3 - b3) * (a3 - b3) < 0"
    by (simp add: not_less add_nonneg_nonneg)
  then show ?thesis
    using assms
    by (simp add: distanceTo_def minus_number_def Let_def distance3_def power2_eq_square
        algebra_simps)
qed

lemma attract_distance_Fin:
  assumes "vectors st (mesh_position (objects st a)) = Vector3 (Fin a1) (Fin a2) (Fin a3)"
    and "vectors st (mesh_position (objects st b)) = Vector3 (Fin b1) (Fin b2) (Fin b3)"
  shows "attract_distance st a b = Fin (max (distance3 a1 a2 a3 b1 b2 b3) 1)"
  by (simp add: attract_distance_def distanceTo_Fin [OF assms])

lemma attract_forceMagnitude_Fin:
  assumes "vectors st (mesh_position (objects st a)) = Vector3 (Fin a1) (Fin a2) (Fin a3)"
    and "vectors st (mesh_position (objects st b)) = Vector3 (Fin b1) (Fin b2) (Fin b3)"
    and "mass (objects st a) = Fin mA" and "mass (objects st b) = Fin mB"
  shows "attract_forceMagnitude st a b =
     Fin (G * mA * mB / (max (distance3 a1 a2 a3 b1 b2 b3) 1)\<^sup>2)"
proof -
  have "0 < max (distance3 a1 a2 a3 b1 b2 b3) 1" by simp
  then have "max (distance3 a1 a2 a3 b1 b2 b3) 1 * max (distance3 a1 a2 a3 b1 b2 b3) 1 \<noteq> 0"
    by simp
  then show ?thesis
    using assms(3,4)
    by (simp add: attract_forceMagnitude_def attract_distance_Fin [OF assms(1,2)] Let_def
        power2_eq_square)
qed

lemma attract_acceleration_Fin:
  assumes "vectors st (mesh_position (objects st a)) = Vector3 (Fin a1) (Fin a2) (Fin a3)"
    and "vectors st (mesh_position (objects st b)) = Vector3 (Fin b1) (Fin b2) (Fin b3)"
    and "mass (objects st a) = Fin mA" and "mass (objects st b) = Fin mB" and "mA \<noteq> 0"
  shows "attract_acceleration st a b =
     (let d = distance3 a1 a2 a3 b1 b2 b3;
          s = (if d = 0 then 1 else d);
          f = G * mA * mB / (max d 1)\<^sup>2
      in Vector3 (Fin ((b1 - a1) * (1 / s) * f * (1 / mA)))
                 (Fin ((b2 - a2) * (1 / s) * f * (1 / mA)))
                 (Fin ((b3 - a3) * (1 / s) * f * (1 / mA))))"
  unfolding attract_acceleration_def attract_forceMagnitude_Fin [OF assms(1-4)] assms(1,2,3)
    vec_sub_Fin vec_normalize_Fin
  using assms(5) by (simp add: Let_def distance3_def)

lemma well_formed_fresh:
  assumes "well_formed st" "a < nobjects st"
  shows "mesh_position (objects st a) \<noteq> nvectors st" "velocity (objects st a) \<noteq> nvectors st"
proof -
  have "\<forall>r\<in>set (refs_of (objects st a)). r < nvectors st"
    using assms by (simp add: well_formed_def)
  then have "mesh_position (objects st a) < nvectors st" "velocity (objects st a) < nvectors st"
    by (simp_all add: refs_of_def)
  then show "mesh_position (objects st a) \<noteq> nvectors st" "velocity (objects st a) \<noteq> nvectors st"
    by simp_all
qed

lemma attract_velocity:
  assumes "well_formed st" "a < nobjects st" "b < nobjects st"
  shows "vectors (attract st a b dt) (velocity (objects st a)) =
     vec_addScaledVector (vectors st (velocity (objects st a))) (attract_acceleration st a b) dt"
  by (simp add: attract_vectors [OF well_formed_fresh(1) [OF assms(1,2)]
        well_formed_fresh(1) [OF assms(1,3)] well_formed_fresh(2) [OF assms(1,2)]])

lemma attract_velocity_Fin:
  assumes "well_formed st" "a < nobjects st" "b < nobjects st"
    and "vectors st (mesh_position (objects st a)) = Vector3 (Fin a1) (Fin a2) (Fin a3)"
    and "vectors st (mesh_position (objects st b)) = Vector3 (Fin b1) (Fin b2) (Fin b3)"
    and "mass (objects st a) = Fin mA" and "mass (objects st b) = Fin mB" and "mA \<noteq> 0"
    and "vectors st (velocity (objects st a)) = Vector3 (Fin v1) (Fin v2) (Fin v3)"
  shows "vectors (attract st a b (Fin t)) (velocity (objects st a)) =
     (let d = distance3 a1 a2 a3 b1 b2 b3;
          s = (if d = 0 then 1 else d);
          f = G * mA * mB / (max d 1)\<^sup>2
      in Vector3 (Fin (v1 + (b1 - a1) * (1 / s) * f * (1 / mA) * t))
                 (Fin (v2 + (b2 - a2) * (1 / s) * f * (1 / mA) * t))
                 (Fin (v3 + (b3 - a3) * (1 / s) * f * (1 / mA) * t)))"
  unfolding attract_velocity [OF assms(1-3)] attract_acceleration_Fin [OF assms(4-8)] assms(9)
  by (simp add: Let_def)

lemma two_bodies_bounds:
  "0 < nobjects (two_bodies pA mA pB mB)" "1 < nobjects (two_bodies pA mA pB mB)"
  by (simp_all add: two_bodies_fields)

section \<open>The velocity change of attract\<close>

text \<open>
  Claim C1, as amended. For two planets of positive finite masses at different finite
  positions and a finite \<open>dt > 0\<close>, one call \<open>A.attract(B, dt)\<close> turns the (finite)
  velocity \<open>v\<close> of \<open>A\<close> into \<open>v + k u\<close>, where \<open>d\<close> is the distance of the two mesh
  positions, \<open>u = (B - A) / d\<close> is the unit vector from \<open>A\<close> to \<open>B\<close> and
  \<open>k = G mA mB / max(d, 1)\<^sup>2 / mA dt\<close>. Arithmetic is exact.
\<close>

theorem attract_velocity_change:
  assumes "well_formed st" "a < nobjects st" "b < nobjects st"
    and "vectors st (mesh_position (objects st a)) = Vector3 (Fin a1) (Fin a2) (Fin a3)"
    and "vectors st (mesh_position (objects st b)) = Vector3 (Fin b1) (Fin b2) (Fin b3)"
    and "(a1, a2, a3) \<noteq> (b1, b2, b3)"
    and "mass (objects st a) = Fin mA" and "mass (objects st b) = Fin mB"
    and "0 < mA" and "0 < mB" and "0 < t"
    and "vectors st (velocity (objects st a)) = Vector3 (Fin v1) (Fin v2) (Fin v3)"
  shows "let d = distance3 a1 a2 a3 b1 b2 b3;
             k = G * mA * mB / (max d 1)\<^sup>2 / mA * t;
             u1 = (b1 - a1) / d; u2 = (b2 - a2) / d; u3 = (b3 - a3) / d
         in u1\<^sup>2 + u2\<^sup>2 + u3\<^sup>2 = 1 \<and>
            vectors (attract st a b (Fin t)) (velocity (objects st a)) =
              Vector3 (Fin (v1 + k * u1)) (Fin (v2 + k * u2)) (Fin (v3 + k * u3))"
proof -
  define d where "d = distance3 a1 a2 a3 b1 b2 b3"
  have d0: "d \<noteq> 0"
    using assms(6) by (simp add: d_def distance3_eq_0)
  have sq: "(b1 - a1)\<^sup>2 + (b2 - a2)\<^sup>2 + (b3 - a3)\<^sup>2 = d\<^sup>2"
    by (simp add: d_def distance3_def)
  have "((b1 - a1) / d)\<^sup>2 + ((b2 - a2) / d)\<^sup>2 + ((b3 - a3) / d)\<^sup>2 =
      ((b1 - a1)\<^sup>2 + (b2 - a2)\<^sup>2 + (b3 - a3)\<^sup>2) / d\<^sup>2"
    by (simp add: power_divide add_divide_distrib)
  also have "\<dots> = 1"
    unfolding sq using d0 by simp
  finally have unit: "((b1 - a1) / d)\<^sup>2 + ((b2 - a2) / d)\<^sup>2 + ((b3 - a3) / d)\<^sup>2 = 1" .
  have mA: "mA \<noteq> 0" using assms(9) by simp
  have alg: "v + x * (1 / d) * (G * mA * mB / (max d 1)\<^sup>2) * (1 / mA) * t =
      v + G * mA * mB / (max d 1)\<^sup>2 / mA * t * (x / d)" for v x
    by (simp add: field_simps)
  note vel = attract_velocity_Fin [OF assms(1-5) assms(7,8) mA assms(12), of t,
      unfolded Let_def, folded d_def]
  have "vectors (attract st a b (Fin t)) (velocity (objects st a)) =
      Vector3 (Fin (v1 + G * mA * mB / (max d 1)\<^sup>2 / mA * t * ((b1 - a1) / d)))
              (Fin (v2 + G * mA * mB / (max d 1)\<^sup>2 / mA * t * ((b2 - a2) / d)))
              (Fin (v3 + G * mA * mB / (max d 1)\<^sup>2 / mA * t * ((b3 - a3) / d)))"
    using vel by (simp only: d0 if_False alg)
  with unit show ?thesis by (simp add: Let_def d_def)
qed

theorem attract_velocity_change_witness:
  "well_formed example_pair \<and> 0 < nobjects example_pair \<and> 1 < nobjects example_pair \<and>
   vectors example_pair (mesh_position (objects example_pair 0)) = Vector3 (Fin 0) (Fin 0) (Fin 0) \<and>
   vectors example_pair (mesh_position (objects example_pair 1)) = Vector3 (Fin 2) (Fin 0) (Fin 0) \<and>
   (0::real, 0::real, 0::real) \<noteq> (2, 0, 0) \<and>
   mass (objects example_pair 0) = Fin 2 \<and> mass (objects example_pair 1) = Fin 3 \<and>
   vectors (attract example_pair 0 1 (Fin 1)) (velocity (objects example_pair 0)) =
     Vector3 (Fin (0 + G * 2 * 3 / 2\<^sup>2 / 2 * 1 * 1)) (Fin 0) (Fin 0)"
proof -
  have wf: "well_formed example_pair"
    unfolding example_pair_def by (rule well_formed_two_bodies)
  have h: "0 < nobjects example_pair" "1 < nobjects example_pair"
    "vectors example_pair (mesh_position (objects example_pair 0)) = Vector3 (Fin 0) (Fin 0) (Fin 0)"
    "vectors example_pair (mesh_position (objects example_pair 1)) = Vector3 (Fin 2) (Fin 0) (Fin 0)"
    "(0::real, 0::real, 0::real) \<noteq> (2, 0, 0)"
    "mass (objects example_pair 0) = Fin 2" "mass (objects example_pair 1) = Fin 3"
    "(0::real) < 2" "(0::real) < 3" "(0::real) < 1"
    "vectors example_pair (velocity (objects example_pair 0)) = Vector3 (Fin 0) (Fin 0) (Fin 0)"
    by (simp_all add: example_pair_def two_bodies_fields)
  show ?thesis
    using attract_velocity_change [OF wf h] wf h
    by (simp add: Let_def distance3_axis)
qed

text \<open>
  The claim as stated fails when the two positions coincide: \<open>normalize\<close> leaves the zero
  vector as it is, so the velocity does not change, while the claimed amount
  \<open>G mA mB / max(0, 1)\<^sup>2 / mA dt\<close> is not zero.
\<close>

theorem attract_coincident_counterexample:
  "vectors example_coincident (mesh_position (objects example_coincident 0)) =
     vectors example_coincident (mesh_position (objects example_coincident 1)) \<and>
   mass (objects example_coincident 0) = Fin 2 \<and> mass (objects example_coincident 1) = Fin 3 \<and>
   vectors (attract example_coincident 0 1 (Fin 1)) (velocity (objects example_coincident 0)) =
     vectors example_coincident (velocity (objects example_coincident 0)) \<and>
   G * 2 * 3 / (max (distance3 0 0 0 0 0 0) 1)\<^sup>2 / 2 * 1 \<noteq> 0"
proof -
  have wf: "well_formed example_coincident"
    unfolding example_coincident_def by (rule well_formed_two_bodies)
  have h: "0 < nobjects example_coincident" "1 < nobjects example_coincident"
    "vectors example_coincident (mesh_position (objects example_coincident 0)) = Vector3 (Fin 0) (Fin 0) (Fin 0)"
    "vectors example_coincident (mesh_position (objects example_coincident 1)) = Vector3 (Fin 0) (Fin 0) (Fin 0)"
    "mass (objects example_coincident 0) = Fin 2" "mass (objects example_coincident 1) = Fin 3"
    "(2::real) \<noteq> 0"
    "vectors example_coincident (velocity (objects example_coincident 0)) = Vector3 (Fin 0) (Fin 0) (Fin 0)"
    by (simp_all add: example_coincident_def two_bodies_fields)
  show ?thesis
    using attract_velocity_Fin [OF wf h, of 1] h
    by (simp add: Let_def distance3_axis G_def)
qed

section \<open>The distance floor\<close>

text \<open>
  Claim C6. When the two mesh positions are finite and less than 1 apart, \<open>attract\<close>
  uses the distance 1: its \<open>forceMagnitude\<close> is \<open>G m1 m2 / (1 * 1)\<close>, the same as for two
  planets of the same masses exactly 1 apart, and this is the magnitude by which it scales
  the direction vector.
\<close>

theorem distance_floor:
  assumes "vectors st (mesh_position (objects st a)) = Vector3 (Fin a1) (Fin a2) (Fin a3)"
    and "vectors st (mesh_position (objects st b)) = Vector3 (Fin b1) (Fin b2) (Fin b3)"
    and "distance3 a1 a2 a3 b1 b2 b3 < 1"
    and "vectors st' (mesh_position (objects st' a')) = Vector3 (Fin a1') (Fin a2') (Fin a3')"
    and "vectors st' (mesh_position (objects st' b')) = Vector3 (Fin b1') (Fin b2') (Fin b3')"
    and "distance3 a1' a2' a3' b1' b2' b3' = 1"
    and "mass (objects st' a') = mass (objects st a)"
    and "mass (objects st' b') = mass (objects st b)"
  shows "attract_distance st a b = Fin 1 \<and>
         attract_forceMagnitude st a b =
           Fin G * mass (objects st a) * mass (objects st b) / (Fin 1 * Fin 1) \<and>
         attract_forceMagnitude st a b = attract_forceMagnitude st' a' b' \<and>
         (well_formed st \<and> a < nobjects st \<and> b < nobjects st \<longrightarrow>
            vectors (attract st a b dt) (nvectors st) =
              vec_multiplyScalar
                (vec_multiplyScalar
                   (vec_normalize (vec_sub (vectors st (mesh_position (objects st b)))
                                           (vectors st (mesh_position (objects st a)))))
                   (Fin G * mass (objects st a) * mass (objects st b) / (Fin 1 * Fin 1)))
                (Fin 1 / mass (objects st a)))"
proof -
  have d: "attract_distance st a b = Fin 1"
    using assms(3) by (simp add: attract_distance_Fin [OF assms(1,2)] max_def)
  have d': "attract_distance st' a' b' = Fin 1"
    using assms(6) by (simp add: attract_distance_Fin [OF assms(4,5)])
  have f: "attract_forceMagnitude st a b =
      Fin G * mass (objects st a) * mass (objects st b) / (Fin 1 * Fin 1)"
    by (simp add: attract_forceMagnitude_def d Let_def)
  have f': "attract_forceMagnitude st a b = attract_forceMagnitude st' a' b'"
    using assms(7,8) by (simp add: attract_forceMagnitude_def d d' Let_def)
  have "vectors (attract st a b dt) (nvectors st) = attract_acceleration st a b"
    if "well_formed st \<and> a < nobjects st \<and> b < nobjects st"
  proof -
    from that have wf: "well_formed st" and a: "a < nobjects st" and b: "b < nobjects st"
      by simp_all
    show ?thesis
      using well_formed_fresh(2) [OF wf a]
      by (simp add: attract_vectors [OF well_formed_fresh(1) [OF wf a]
            well_formed_fresh(1) [OF wf b] well_formed_fresh(2) [OF wf a]])
  qed
  then have v: "well_formed st \<and> a < nobjects st \<and> b < nobjects st \<longrightarrow>
      vectors (attract st a b dt) (nvectors st) =
        vec_multiplyScalar
          (vec_multiplyScalar
             (vec_normalize (vec_sub (vectors st (mesh_position (objects st b)))
                                     (vectors st (mesh_position (objects st a)))))
             (Fin G * mass (objects st a) * mass (objects st b) / (Fin 1 * Fin 1)))
          (Fin 1 / mass (objects st a))"
    unfolding attract_acceleration_def f by blast
  from d f f' v show ?thesis by blast
qed

theorem distance_floor_witness:
  "vectors example_close (mesh_position (objects example_close 0)) = Vector3 (Fin 0) (Fin 0) (Fin 0) \<and>
   vectors example_close (mesh_position (objects example_close 1)) = Vector3 (Fin (1 / 10000)) (Fin 0) (Fin 0) \<and>
   distance3 0 0 0 (1 / 10000) 0 0 < 1 \<and>
   distance3 0 0 0 1 0 0 = 1 \<and>
   attract_distance example_close 0 1 = Fin 1 \<and>
   attract_forceMagnitude example_close 0 1 = Fin (G * 2 * 3 / 1\<^sup>2) \<and>
   attract_forceMagnitude example_close 0 1 = attract_forceMagnitude example_unit 0 1"
proof -
  have h: "vectors example_close (mesh_position (objects example_close 0)) = Vector3 (Fin 0) (Fin 0) (Fin 0)"
    "vectors example_close (mesh_position (objects example_close 1)) = Vector3 (Fin (1 / 10000)) (Fin 0) (Fin 0)"
    "distance3 0 0 0 (1 / 10000) 0 0 < 1"
    "vectors example_unit (mesh_position (objects example_unit 0)) = Vector3 (Fin 0) (Fin 0) (Fin 0)"
    "vectors example_unit (mesh_position (objects example_unit 1)) = Vector3 (Fin 1) (Fin 0) (Fin 0)"
    "distance3 0 0 0 1 0 0 = 1"
    "mass (objects example_unit 0) = mass (objects example_close 0)"
    "mass (objects example_unit 1) = mass (objects example_close 1)"
    by (simp_all add: example_close_def example_unit_def two_bodies_fields distance3_axis)
  have m: "mass (objects example_close 0) = Fin 2" "mass (objects example_close 1) = Fin 3"
    by (simp_all add: example_close_def two_bodies_fields)
  note c = distance_floor [OF h, of "Fin 1"]
  have "attract_forceMagnitude example_close 0 1 = Fin (G * 2 * 3 / 1\<^sup>2)"
    using c [THEN conjunct2, THEN conjunct1] m by simp
  with c h(1,2,3,6) show ?thesis by blast
qed

section \<open>What attract stores in forces\<close>

text \<open>
  Claim C2 asks for the force vector in \<open>forces[B.name]\<close>. The source stores the object
  named \<open>force\<close>, but \<open>force.multiplyScalar(1 / this.mass)\<close> has by then turned that very
  object into the acceleration. For \<open>A\<close> of mass 2 at the origin and \<open>B\<close> of mass 3 at
  \<open>(2, 0, 0)\<close>: the entry \<open>forces[B]\<close> of \<open>A\<close> refers to the vector
  \<open>(G 2 3 / 2\<^sup>2 / 2, 0, 0)\<close>, the force divided by the mass of \<open>A\<close>, while the force
  magnitude is \<open>G 2 3 / 2\<^sup>2\<close>.
\<close>

theorem attract_stores_acceleration:
  "map_of (forces (objects (attract example_pair 0 1 (Fin 1)) 0)) ''B'' = Some 6 \<and>
   vectors (attract example_pair 0 1 (Fin 1)) 6 = Vector3 (Fin (G * 2 * 3 / 2\<^sup>2 / 2)) (Fin 0) (Fin 0) \<and>
   attract_forceMagnitude example_pair 0 1 = Fin (G * 2 * 3 / 2\<^sup>2) \<and>
   G * 2 * 3 / 2\<^sup>2 / 2 \<noteq> G * 2 * 3 / 2\<^sup>2"
proof -
  have h: "vectors example_pair (mesh_position (objects example_pair 0)) = Vector3 (Fin 0) (Fin 0) (Fin 0)"
    "vectors example_pair (mesh_position (objects example_pair 1)) = Vector3 (Fin 2) (Fin 0) (Fin 0)"
    "mass (objects example_pair 0) = Fin 2" "mass (objects example_pair 1) = Fin 3"
    by (simp_all add: example_pair_def two_bodies_fields)
  have fresh: "mesh_position (objects example_pair 0) \<noteq> nvectors example_pair"
    "mesh_position (objects example_pair 1) \<noteq> nvectors example_pair"
    "velocity (objects example_pair 0) \<noteq> nvectors example_pair"
    by (simp_all add: example_pair_def two_bodies_fields)
  have n: "nvectors example_pair = 6" "velocity (objects example_pair 0) = 1"
    "name (objects example_pair 1) = ''B''" "forces (objects example_pair 0) = []"
    by (simp_all add: example_pair_def two_bodies_fields)
  have 1: "map_of (forces (objects (attract example_pair 0 1 (Fin 1)) 0)) ''B'' = Some 6"
    using n by (simp add: attract_objects)
  have 2: "vectors (attract example_pair 0 1 (Fin 1)) 6 =
      Vector3 (Fin (G * 2 * 3 / 2\<^sup>2 / 2)) (Fin 0) (Fin 0)"
    using attract_acceleration_Fin [OF h] n attract_vectors [OF fresh, of "Fin 1"]
    by (simp add: Let_def distance3_axis)
  have 3: "attract_forceMagnitude example_pair 0 1 = Fin (G * 2 * 3 / 2\<^sup>2)"
    using attract_forceMagnitude_Fin [OF h] by (simp add: distance3_axis)
  have 4: "G * 2 * 3 / 2\<^sup>2 / 2 \<noteq> G * 2 * 3 / 2\<^sup>2"
    by (simp add: G_def)
  from 1 2 3 4 show ?thesis by blast
qed

section \<open>Masses that are not positive\<close>

lemma zero_times: "Fin 0 * m = Fin 0 \<or> Fin 0 * m = NaN"
  by (cases m) (simp_all add: infinity_def)

lemma zero_or_NaN_divide: "x = Fin 0 \<or> x = NaN \<Longrightarrow> x / y = Fin 0 \<or> x / y = NaN"
  by (cases y) auto

lemma times_zero_or_NaN: "x = Fin 0 \<or> x = NaN \<Longrightarrow> c * x = Fin 0 \<or> c * x = NaN"
  by (cases c) auto

lemma zero_or_NaN_times_infinity: "x = Fin 0 \<or> x = NaN \<Longrightarrow> x * PosInf = NaN"
  by auto

lemma plus_NaN: "v + NaN = NaN"
  by (cases v) simp_all

lemma massless_forceMagnitude:
  assumes "mass (objects st a) = Fin 0"
  shows "attract_forceMagnitude st a b = Fin 0 \<or> attract_forceMagnitude st a b = NaN"
proof -
  have "Fin G * Fin 0 = Fin 0" by simp
  then have "Fin G * Fin 0 * mass (objects st b) = Fin 0 \<or>
      Fin G * Fin 0 * mass (objects st b) = NaN"
    using zero_times [of "mass (objects st b)"] by simp
  then show ?thesis
    unfolding attract_forceMagnitude_def Let_def assms by (rule zero_or_NaN_divide)
qed

lemma massless_acceleration:
  assumes "mass (objects st a) = Fin 0"
  shows "attract_acceleration st a b = Vector3 NaN NaN NaN"
proof -
  obtain c1 c2 c3 where dir: "vec_normalize (vec_sub (vectors st (mesh_position (objects st b)))
      (vectors st (mesh_position (objects st a)))) = Vector3 c1 c2 c3"
    by (cases "vec_normalize (vec_sub (vectors st (mesh_position (objects st b)))
      (vectors st (mesh_position (objects st a))))") blast
  note f = massless_forceMagnitude [OF assms, of b]
  have "c * attract_forceMagnitude st a b * PosInf = NaN" for c
    by (rule zero_or_NaN_times_infinity [OF times_zero_or_NaN [OF f]])
  then show ?thesis
    by (simp add: attract_acceleration_def dir assms infinity_def)
qed

lemma isFinite_iff: "isFinite a \<longleftrightarrow> (\<exists>r. a = Fin r)"
  by (cases a) simp_all

lemma vec_finite_iff: "vec_finite v \<longleftrightarrow> (\<exists>a b c. v = Vector3 (Fin a) (Fin b) (Fin c))"
  by (cases v) (simp add: isFinite_iff)

text \<open>
  Claim C9, as amended. \<open>attract\<close> checks nothing and has no error path: it is a total
  function of the store. For a body of mass 0 it makes every component of the body's
  velocity \<open>NaN\<close>, whatever the other values are: \<open>1 / mass\<close> is \<open>Infinity\<close>, the force
  is 0 or \<open>NaN\<close>, and either of them times \<open>Infinity\<close> is \<open>NaN\<close>. Nothing reports it.
\<close>

theorem attract_mass_zero:
  assumes "well_formed st" "a < nobjects st" "b < nobjects st"
    and "mass (objects st a) = Fin 0"
  shows "vectors (attract st a b dt) (velocity (objects st a)) = Vector3 NaN NaN NaN"
proof -
  have "attract_acceleration st a b = Vector3 NaN NaN NaN"
    using assms(4) by (rule massless_acceleration)
  then show ?thesis
    unfolding attract_velocity [OF assms(1-3)]
    by (cases "vectors st (velocity (objects st a))") (simp add: plus_NaN)
qed

theorem attract_mass_zero_witness:
  "well_formed example_massless \<and> 0 < nobjects example_massless \<and>
   1 < nobjects example_massless \<and> mass (objects example_massless 0) = Fin 0 \<and>
   vectors (attract example_massless 0 1 (Fin 1)) (velocity (objects example_massless 0)) =
     Vector3 NaN NaN NaN"
proof -
  have wf: "well_formed example_massless"
    unfolding example_massless_def by (rule well_formed_two_bodies)
  have h: "0 < nobjects example_massless" "1 < nobjects example_massless"
    "mass (objects example_massless 0) = Fin 0"
    by (simp_all add: example_massless_def two_bodies_fields)
  show ?thesis
    using attract_mass_zero [OF wf h, of "Fin 1"] wf h by simp
qed

text \<open>
  The claim as stated also covers negative masses, and fails there: dividing by a
  negative mass gives a finite number. For
  \<open>A\<close> of mass \<open>-2\<close> at the origin and \<open>B\<close> of mass 3 at \<open>(2, 0, 0)\<close> the velocity of \<open>A\<close>
  after \<open>A.attract(B, 1)\<close> is finite.
\<close>

theorem attract_negative_mass_counterexample:
  "mass (objects example_negative 0) = Fin (- 2) \<and>
   vectors (attract example_negative 0 1 (Fin 1)) (velocity (objects example_negative 0)) =
     Vector3 (Fin (0 + G * (- 2) * 3 / 2\<^sup>2 / (- 2) * 1)) (Fin 0) (Fin 0) \<and>
   vec_finite (vectors (attract example_negative 0 1 (Fin 1))
     (velocity (objects example_negative 0)))"
proof -
  have wf: "well_formed example_negative"
    unfolding example_negative_def by (rule well_formed_two_bodies)
  have h: "0 < nobjects example_negative" "1 < nobjects example_negative"
    "vectors example_negative (mesh_position (objects example_negative 0)) = Vector3 (Fin 0) (Fin 0) (Fin 0)"
    "vectors example_negative (mesh_position (objects example_negative 1)) = Vector3 (Fin 2) (Fin 0) (Fin 0)"
    "mass (objects example_negative 0) = Fin (- 2)" "mass (objects example_negative 1) = Fin 3"
    "(- 2::real) \<noteq> 0"
    "vectors example_negative (velocity (objects example_negative 0)) = Vector3 (Fin 0) (Fin 0) (Fin 0)"
    by (simp_all add: example_negative_def two_bodies_fields)
  show ?thesis
    using attract_velocity_Fin [OF wf h, of 1] h(5)
    by (simp add: Let_def distance3_axis)
qed

section \<open>The effect of update\<close>

lemma well_formed_refs:
  assumes "well_formed st" "a < nobjects st"
  shows "distinct (position (objects st a) # velocity (objects st a) #
           mesh_position (objects st a) #
           (map snd (forces (objects st a)) @ tracePoints (objects st a)))"
    and "\<forall>r\<in>set (position (objects st a) # velocity (objects st a) #
           mesh_position (objects st a) #
           (map snd (forces (objects st a)) @ tracePoints (objects st a))). r < nvectors st"
  using assms unfolding well_formed_def refs_of_def by blast+

lemma update_variant_position:
  assumes "well_formed st" "a < nobjects st"
  shows "vectors (update_variant c ar st a dt) (mesh_position (objects st a)) =
     position_after_update st a dt"
proof -
  have "mesh_position (objects st a) \<notin> snd ` set (forces (objects st a))"
    using well_formed_refs(1) [OF assms] by auto
  then show ?thesis
    using well_formed_fresh(1) [OF assms] by (simp add: update_variant_vectors)
qed

lemma update_variant_new_point:
  assumes "well_formed st" "a < nobjects st"
  shows "vectors (update_variant c ar st a dt) (nvectors st) = position_after_update st a dt"
proof -
  have "nvectors st \<notin> snd ` set (forces (objects st a))"
    using well_formed_refs(2) [OF assms] by auto
  then show ?thesis by (simp add: update_variant_vectors)
qed

lemma update_variant_velocity:
  assumes "well_formed st" "a < nobjects st"
  shows "vectors (update_variant c ar st a dt) (velocity (objects st a)) =
     vectors st (velocity (objects st a))"
proof -
  have "velocity (objects st a) \<notin> snd ` set (forces (objects st a))"
    "velocity (objects st a) \<noteq> mesh_position (objects st a)"
    using well_formed_refs(1) [OF assms] by auto
  then show ?thesis
    using well_formed_fresh(2) [OF assms] by (simp add: update_variant_vectors)
qed

lemma update_variant_old_points:
  assumes "well_formed st" "a < nobjects st" "r \<in> set (tracePoints (objects st a))"
  shows "vectors (update_variant c ar st a dt) r = vectors st r"
proof -
  have "r \<notin> snd ` set (forces (objects st a))" "r \<noteq> mesh_position (objects st a)"
    using well_formed_refs(1) [OF assms(1,2)] assms(3) by auto
  moreover have "r \<noteq> nvectors st"
    using well_formed_refs(2) [OF assms(1,2)] assms(3) by auto
  ultimately show ?thesis by (simp add: update_variant_vectors)
qed

lemma map_push_shift: "map f (push_shift c xs x) = push_shift c (map f xs) (f x)"
  by (simp add: push_shift_def map_tl)

lemma push_shift_lastn: "length xs \<le> c \<Longrightarrow> push_shift c xs x = lastn c (xs @ [x])"
  by (cases xs) (auto simp: push_shift_def lastn_def Suc_diff_le)

lemma lastn_lastn_append: "lastn c (lastn c xs @ ys) = lastn c (xs @ ys)"
proof (cases "length xs \<le> c")
  case True
  then show ?thesis by (simp add: lastn_def)
next
  case False
  then have "length xs + length ys - c = length ys + (length xs - c)" by simp
  with False show ?thesis by (simp add: lastn_def)
qed

lemma length_lastn: "length (lastn c xs) = min c (length xs)"
  by (auto simp: lastn_def)

lemma update_variant_trace:
  assumes "well_formed st" "a < nobjects st"
  shows "trace_values (update_variant c ar st a dt) a =
     push_shift c (trace_values st a) (position_after_update st a dt)"
proof -
  have eq: "map (vectors (update_variant c ar st a dt)) (tracePoints (objects st a)) =
      map (vectors st) (tracePoints (objects st a))"
    by (rule map_cong [OF refl]) (rule update_variant_old_points [OF assms])
  show ?thesis
    by (simp add: trace_values_def update_variant_objects map_push_shift
        update_variant_new_point [OF assms] eq)
qed

lemma length_appended: "length (appended upd st a dts) = length dts"
  by (induction dts arbitrary: st) simp_all

lemma update_variant_mesh_position:
  "mesh_position (objects (update_variant c ar st a dt) a) = mesh_position (objects st a)"
  by (simp add: update_variant_objects)

lemma trace_updates_variant:
  assumes "well_formed st" "a < nobjects st" "length (tracePoints (objects st a)) \<le> c"
  shows "trace_values (updates (update_variant c ar) st a dts) a =
     lastn c (trace_values st a @ appended (update_variant c ar) st a dts)"
  using assms
proof (induction dts arbitrary: st)
  case Nil
  then show ?case by (simp add: lastn_def trace_values_def)
next
  case (Cons dt dts)
  let ?st = "update_variant c ar st a dt"
  have wf: "well_formed ?st" "a < nobjects ?st"
    using Cons.prems by (simp_all add: well_formed_update_variant update_variant_nobjects)
  have len: "length (trace_values st a) \<le> c"
    using Cons.prems by (simp add: trace_values_def)
  have tr: "trace_values ?st a = lastn c (trace_values st a @ [position_after_update st a dt])"
    using Cons.prems len by (simp add: update_variant_trace push_shift_lastn)
  then have "length (trace_values ?st a) \<le> c"
    by (simp add: length_lastn)
  then have "length (tracePoints (objects ?st a)) \<le> c"
    by (simp add: trace_values_def)
  with wf have "trace_values (updates (update_variant c ar) ?st a dts) a =
      lastn c (trace_values ?st a @ appended (update_variant c ar) ?st a dts)"
    by (rule Cons.IH)
  also have "\<dots> = lastn c ((trace_values st a @ [position_after_update st a dt]) @
      appended (update_variant c ar) ?st a dts)"
    unfolding tr by (rule lastn_lastn_append)
  finally show ?case
    using Cons.prems
    by (simp add: update_variant_mesh_position update_variant_position)
qed

lemma well_formed_separate:
  assumes "well_formed st" "a < nobjects st" "c < nobjects st" "c \<noteq> a"
    and "r \<in> set (refs_of (objects st c))"
  shows "r \<notin> set (refs_of (objects st a))" "r < nvectors st"
proof -
  have "set (refs_of (objects st a)) \<inter> set (refs_of (objects st c)) = {}"
    using assms(1-4) unfolding well_formed_def by blast
  with assms(5) show "r \<notin> set (refs_of (objects st a))" by blast
  show "r < nvectors st"
    using assms(1,3,5) unfolding well_formed_def by blast
qed

lemma attract_other_vectors:
  assumes "well_formed st" "a < nobjects st" "b < nobjects st" "c < nobjects st" "c \<noteq> a"
    and "r \<in> set (refs_of (objects st c))"
  shows "vectors (attract st a b dt) r = vectors st r"
proof -
  have "r \<notin> set (refs_of (objects st a))" "r < nvectors st"
    by (rule well_formed_separate [OF assms(1,2,4,5,6)])+
  then have "r \<noteq> velocity (objects st a)" "r \<noteq> nvectors st"
    by (auto simp: refs_of_def)
  then show ?thesis
    by (simp add: attract_vectors [OF well_formed_fresh(1) [OF assms(1,2)]
        well_formed_fresh(1) [OF assms(1,3)] well_formed_fresh(2) [OF assms(1,2)]])
qed

lemma update_variant_other_vectors:
  assumes "well_formed st" "a < nobjects st" "c < nobjects st" "c \<noteq> a"
    and "r \<in> set (refs_of (objects st c))"
  shows "vectors (update_variant cap ar st a dt) r = vectors st r"
proof -
  have "r \<notin> set (refs_of (objects st a))" "r < nvectors st"
    by (rule well_formed_separate [OF assms])+
  then have "r \<notin> snd ` set (forces (objects st a))" "r \<noteq> mesh_position (objects st a)"
    "r \<noteq> nvectors st"
    by (auto simp: refs_of_def)
  then show ?thesis by (simp add: update_variant_vectors)
qed

lemma attract_own_position:
  assumes "well_formed st" "a < nobjects st" "b < nobjects st"
  shows "vectors (attract st a b dt) (mesh_position (objects st a)) =
     vectors st (mesh_position (objects st a))"
proof -
  have "mesh_position (objects st a) \<noteq> velocity (objects st a)"
    using well_formed_refs(1) [OF assms(1,2)] by auto
  then show ?thesis
    using well_formed_fresh(1) [OF assms(1,2)]
    by (simp add: attract_vectors [OF well_formed_fresh(1) [OF assms(1,2)]
        well_formed_fresh(1) [OF assms(1,3)] well_formed_fresh(2) [OF assms(1,2)]])
qed

text \<open>The lemmas on \<open>update_variant\<close>, for \<open>update\<close>.\<close>

lemmas update_nobjects = update_variant_nobjects [where c = 2500 and ar = True, folded update_def]
  and update_nvectors = update_variant_nvectors [where c = 2500 and ar = True, folded update_def]
  and update_objects = update_variant_objects [where c = 2500 and ar = True, folded update_def]
  and update_planets = update_variant_planets [where c = 2500 and ar = True, folded update_def]
  and update_position = update_variant_position [where c = 2500 and ar = True, folded update_def]
  and update_velocity = update_variant_velocity [where c = 2500 and ar = True, folded update_def]
  and update_mesh_position =
    update_variant_mesh_position [where c = 2500 and ar = True, folded update_def]
  and update_other_vectors = update_variant_other_vectors [where cap = 2500 and ar = True, folded update_def]
  and well_formed_update = well_formed_update_variant [where c = 2500 and ar = True, folded update_def]

text \<open>What \<open>update\<close> does, in a well-formed store.\<close>

lemma update_effect:
  assumes "well_formed st" "a < nobjects st"
  shows "vectors (update st a dt) (mesh_position (objects st a)) =
           vec_addScaledVector (vectors st (mesh_position (objects st a)))
             (vectors st (velocity (objects st a))) dt"
    and "vectors (update st a dt) (velocity (objects st a)) = vectors st (velocity (objects st a))"
    and "objects (update st a dt) a =
           (objects st a)\<lparr>tracePoints := push_shift 2500 (tracePoints (objects st a)) (nvectors st)\<rparr>"
    and "last (tracePoints (objects (update st a dt) a)) = nvectors st"
    and "vectors (update st a dt) (nvectors st) =
           vectors (update st a dt) (mesh_position (objects st a))"
    and "r \<in> snd ` set (forces (objects st a)) \<Longrightarrow>
           vectors (update st a dt) r = vec_normalize (vectors st r)"
proof -
  show "vectors (update st a dt) (mesh_position (objects st a)) =
           vec_addScaledVector (vectors st (mesh_position (objects st a)))
             (vectors st (velocity (objects st a))) dt"
    unfolding update_position [OF assms] position_after_update_def ..
  show "vectors (update st a dt) (velocity (objects st a)) = vectors st (velocity (objects st a))"
    by (rule update_velocity [OF assms])
  show "objects (update st a dt) a =
      (objects st a)\<lparr>tracePoints := push_shift 2500 (tracePoints (objects st a)) (nvectors st)\<rparr>"
    by (simp add: update_objects)
  show "last (tracePoints (objects (update st a dt) a)) = nvectors st"
    by (cases "tracePoints (objects st a)") (simp_all add: update_objects push_shift_def)
  show "vectors (update st a dt) (nvectors st) =
           vectors (update st a dt) (mesh_position (objects st a))"
    unfolding update_def update_variant_position [OF assms] update_variant_new_point [OF assms] ..
  assume r: "r \<in> snd ` set (forces (objects st a))"
  have d: "distinct (map snd (forces (objects st a)))"
    and m: "mesh_position (objects st a) \<notin> snd ` set (forces (objects st a))"
    using well_formed_refs(1) [OF assms] by auto
  from m r have "r \<noteq> mesh_position (objects st a)" by blast
  moreover have "r < nvectors st"
    using well_formed_refs(2) [OF assms] r by simp
  then have "r \<noteq> nvectors st" by simp
  ultimately show "vectors (update st a dt) r = vec_normalize (vectors st r)"
    unfolding update_def
    by (simp add: update_variant_vectors_force [OF _ d r])
qed

lemma G_pos: "0 < G"
  by (simp add: G_def)

lemma vec_normalize_axis:
  "0 < x \<Longrightarrow> vec_normalize (Vector3 (Fin x) (Fin 0) (Fin 0)) = Vector3 (Fin 1) (Fin 0) (Fin 0)"
  by (simp add: vec_normalize_Fin)

lemma well_formed_example_pair: "well_formed example_pair"
  unfolding example_pair_def by (rule well_formed_two_bodies)

lemma example_pair_fields:
  "nvectors example_pair = 6"
  "nobjects example_pair = 2"
  "planets example_pair = [0, 1]"
  "objects example_pair 0 =
     \<lparr>name = ''A'', size_p = Fin 1, position = 0, velocity = 1, mass = Fin 2, forces = [],
      mesh_position = 2, tracePoints = []\<rparr>"
  "objects example_pair (Suc 0) =
     \<lparr>name = ''B'', size_p = Fin 1, position = 3, velocity = 4, mass = Fin 3, forces = [],
      mesh_position = 5, tracePoints = []\<rparr>"
  "vectors example_pair 0 = Vector3 (Fin 0) (Fin 0) (Fin 0)"
  "vectors example_pair (Suc 0) = Vector3 (Fin 0) (Fin 0) (Fin 0)"
  "vectors example_pair 2 = Vector3 (Fin 0) (Fin 0) (Fin 0)"
  "vectors example_pair 3 = Vector3 (Fin 2) (Fin 0) (Fin 0)"
  "vectors example_pair 4 = Vector3 (Fin 0) (Fin 0) (Fin 0)"
  "vectors example_pair 5 = Vector3 (Fin 2) (Fin 0) (Fin 0)"
  by (simp_all add: example_pair_def two_bodies_fields)

lemma well_formed_example_attracted: "well_formed example_attracted"
  unfolding example_attracted_def
  by (rule well_formed_attract [OF well_formed_example_pair]) (simp add: example_pair_fields)

lemma example_pair_acceleration:
  "attract_acceleration example_pair 0 (Suc 0) = Vector3 (Fin (3 * G / 4)) (Fin 0) (Fin 0)"
proof -
  have "attract_acceleration example_pair 0 (Suc 0) =
     (let d = distance3 0 0 0 2 0 0; s = (if d = 0 then 1 else d);
          f = G * 2 * 3 / (max d 1)\<^sup>2
      in Vector3 (Fin ((2 - 0) * (1 / s) * f * (1 / 2)))
                 (Fin ((0 - 0) * (1 / s) * f * (1 / 2)))
                 (Fin ((0 - 0) * (1 / s) * f * (1 / 2))))"
    by (rule attract_acceleration_Fin) (simp_all add: example_pair_fields)
  then show ?thesis by (simp add: Let_def distance3_axis)
qed

lemma example_attracted_fields:
  "nvectors example_attracted = 7"
  "nobjects example_attracted = 2"
  "planets example_attracted = [0, 1]"
  "objects example_attracted 0 =
     \<lparr>name = ''A'', size_p = Fin 1, position = 0, velocity = 1, mass = Fin 2,
      forces = [(''B'', 6)], mesh_position = 2, tracePoints = []\<rparr>"
  "vectors example_attracted (Suc 0) = Vector3 (Fin (3 * G / 4)) (Fin 0) (Fin 0)"
  "vectors example_attracted 2 = Vector3 (Fin 0) (Fin 0) (Fin 0)"
  "vectors example_attracted 6 = Vector3 (Fin (3 * G / 4)) (Fin 0) (Fin 0)"
proof -
  have fresh: "mesh_position (objects example_pair 0) \<noteq> nvectors example_pair"
    "mesh_position (objects example_pair (Suc 0)) \<noteq> nvectors example_pair"
    "velocity (objects example_pair 0) \<noteq> nvectors example_pair"
    by (simp_all add: example_pair_fields)
  note v = attract_vectors [OF fresh, of "Fin 1"]
  show "nvectors example_attracted = 7" "nobjects example_attracted = 2"
    "planets example_attracted = [0, 1]"
    by (simp_all add: example_attracted_def attract_nvectors attract_nobjects attract_planets
        example_pair_fields)
  show "objects example_attracted 0 =
     \<lparr>name = ''A'', size_p = Fin 1, position = 0, velocity = 1, mass = Fin 2,
      forces = [(''B'', 6)], mesh_position = 2, tracePoints = []\<rparr>"
    by (simp add: example_attracted_def attract_objects example_pair_fields)
  show "vectors example_attracted (Suc 0) = Vector3 (Fin (3 * G / 4)) (Fin 0) (Fin 0)"
    "vectors example_attracted 2 = Vector3 (Fin 0) (Fin 0) (Fin 0)"
    "vectors example_attracted 6 = Vector3 (Fin (3 * G / 4)) (Fin 0) (Fin 0)"
    by (simp_all add: example_attracted_def v example_pair_fields example_pair_acceleration)
qed

section \<open>The trace buffer\<close>

text \<open>
  Claim C4. In both variants of \<open>update\<close> (capacity 2500 and capacity 1000), starting from a
  trace within the capacity, the trace stays within the capacity after any number of
  updates, and it holds the last \<open>C\<close> of the old trace values followed by the positions the
  updates reached, oldest first. From an empty trace, after \<open>C + k\<close> updates it has exactly
  \<open>C\<close> points: the last \<open>C\<close> positions reached, in the order they were reached.
\<close>

theorem trace_fifo:
  assumes "well_formed st" "a < nobjects st"
    and "upd = update \<and> c = 2500 \<or> upd = update_1000 \<and> c = 1000"
    and "length (tracePoints (objects st a)) \<le> c"
  shows "length (tracePoints (objects (updates upd st a dts) a)) \<le> c \<and>
         trace_values (updates upd st a dts) a =
           lastn c (trace_values st a @ appended upd st a dts) \<and>
         (tracePoints (objects st a) = [] \<and> c \<le> length dts \<longrightarrow>
            length (tracePoints (objects (updates upd st a dts) a)) = c \<and>
            trace_values (updates upd st a dts) a =
              drop (length dts - c) (appended upd st a dts))"
proof -
  from assms(3) obtain ar where upd: "upd = update_variant c ar"
    by (auto simp: update_def update_1000_def)
  have tr: "trace_values (updates upd st a dts) a =
      lastn c (trace_values st a @ appended upd st a dts)"
    unfolding upd by (rule trace_updates_variant [OF assms(1,2,4)])
  have len: "length (tracePoints (objects (updates upd st a dts) a)) =
      length (trace_values (updates upd st a dts) a)"
    by (simp add: trace_values_def)
  have 1: "length (tracePoints (objects (updates upd st a dts) a)) \<le> c"
    unfolding len tr by (simp add: length_lastn)
  have 3: "length (tracePoints (objects (updates upd st a dts) a)) = c \<and>
      trace_values (updates upd st a dts) a = drop (length dts - c) (appended upd st a dts)"
    if "tracePoints (objects st a) = []" "c \<le> length dts"
  proof -
    have "trace_values st a = []" using that(1) by (simp add: trace_values_def)
    then show ?thesis
      unfolding len tr using that(2) by (simp add: length_lastn lastn_def length_appended)
  qed
  from 1 tr 3 show ?thesis by blast
qed

lemma example_attracted_updates:
  "position_after_update example_attracted 0 (Fin 1) = Vector3 (Fin (3 * G / 4)) (Fin 0) (Fin 0)"
  "position_after_update (update example_attracted 0 (Fin 1)) 0 (Fin 1) =
     Vector3 (Fin (3 * G / 2)) (Fin 0) (Fin 0)"
proof -
  have b: "0 < nobjects example_attracted" by (simp add: example_attracted_fields)
  note wf = well_formed_example_attracted
  show 1: "position_after_update example_attracted 0 (Fin 1) =
      Vector3 (Fin (3 * G / 4)) (Fin 0) (Fin 0)"
    by (simp add: position_after_update_def example_attracted_fields)
  have "vectors (update example_attracted 0 (Fin 1)) (mesh_position (objects example_attracted 0)) =
      position_after_update example_attracted 0 (Fin 1)"
    "vectors (update example_attracted 0 (Fin 1)) (velocity (objects example_attracted 0)) =
      vectors example_attracted (velocity (objects example_attracted 0))"
    unfolding update_def
    by (rule update_variant_position [OF wf b] update_variant_velocity [OF wf b])+
  then show "position_after_update (update example_attracted 0 (Fin 1)) 0 (Fin 1) =
     Vector3 (Fin (3 * G / 2)) (Fin 0) (Fin 0)"
    unfolding 1
    by (simp add: position_after_update_def update_def update_variant_objects
        example_attracted_fields)
qed

theorem trace_fifo_witness:
  "well_formed example_attracted \<and> 0 < nobjects example_attracted \<and>
   length (tracePoints (objects example_attracted 0)) \<le> 2500 \<and>
   length (tracePoints (objects (updates update example_attracted 0 [Fin 1, Fin 1]) 0)) \<le> 2500 \<and>
   trace_values (updates update example_attracted 0 [Fin 1, Fin 1]) 0 =
     [Vector3 (Fin (3 * G / 4)) (Fin 0) (Fin 0), Vector3 (Fin (3 * G / 2)) (Fin 0) (Fin 0)] \<and>
   tracePoints (objects example_attracted 0) = [] \<and>
   2500 \<le> length (replicate 2501 (Fin 1)) \<and>
   length (tracePoints (objects
     (updates update example_attracted 0 (replicate 2501 (Fin 1))) 0)) = 2500 \<and>
   1000 \<le> length (replicate 1001 (Fin 1)) \<and>
   length (tracePoints (objects
     (updates update_1000 example_attracted 0 (replicate 1001 (Fin 1))) 0)) = 1000"
proof -
  have b: "0 < nobjects example_attracted"
    and l: "length (tracePoints (objects example_attracted 0)) \<le> 2500"
    and l': "length (tracePoints (objects example_attracted 0)) \<le> 1000"
    and e: "tracePoints (objects example_attracted 0) = []"
    by (simp_all add: example_attracted_fields)
  note wf = well_formed_example_attracted
  have wf': "well_formed (update example_attracted 0 (Fin 1))"
    unfolding update_def by (rule well_formed_update_variant [OF wf b])
  have b': "0 < nobjects (update example_attracted 0 (Fin 1))"
    by (simp add: update_def update_variant_nobjects example_attracted_fields)
  have p1: "vectors (update example_attracted 0 (Fin 1))
      (mesh_position (objects (update example_attracted 0 (Fin 1)) 0)) =
      Vector3 (Fin (3 * G / 4)) (Fin 0) (Fin 0)"
    unfolding update_def update_variant_mesh_position update_variant_position [OF wf b]
    by (rule example_attracted_updates(1))
  have p2: "vectors (update (update example_attracted 0 (Fin 1)) 0 (Fin 1))
      (mesh_position (objects (update (update example_attracted 0 (Fin 1)) 0 (Fin 1)) 0)) =
      Vector3 (Fin (3 * G / 2)) (Fin 0) (Fin 0)"
    using update_variant_position [OF wf' [unfolded update_def] b' [unfolded update_def], of 2500 True "Fin 1"]
      example_attracted_updates(2)
    by (simp add: update_def update_variant_mesh_position)
  have tv: "trace_values example_attracted 0 = []"
    by (simp add: trace_values_def example_attracted_fields)
  have v: "update = update \<and> (2500::nat) = 2500 \<or> update = update_1000 \<and> (2500::nat) = 1000"
    "update_1000 = update \<and> (1000::nat) = 2500 \<or> update_1000 = update_1000 \<and> (1000::nat) = 1000"
    by simp_all
  note t = trace_fifo [OF wf b v(1) l, of "[Fin 1, Fin 1]"]
  have 1: "length (tracePoints (objects (updates update example_attracted 0 [Fin 1, Fin 1]) 0))
      \<le> 2500"
    and 2: "trace_values (updates update example_attracted 0 [Fin 1, Fin 1]) 0 =
     [Vector3 (Fin (3 * G / 4)) (Fin 0) (Fin 0), Vector3 (Fin (3 * G / 2)) (Fin 0) (Fin 0)]"
    using t by (simp_all add: p1 p2 tv lastn_def)
  have n: "2500 \<le> length (replicate 2501 (Fin 1))" "1000 \<le> length (replicate 1001 (Fin 1))"
    by simp_all
  have 3: "length (tracePoints (objects
     (updates update example_attracted 0 (replicate 2501 (Fin 1))) 0)) = 2500"
    using trace_fifo [OF wf b v(1) l, of "replicate 2501 (Fin 1)"] e n(1) by blast
  have 4: "length (tracePoints (objects
     (updates update_1000 example_attracted 0 (replicate 1001 (Fin 1))) 0)) = 1000"
    using trace_fifo [OF wf b v(2) l', of "replicate 1001 (Fin 1)"] e n(2) by blast
  from wf b l 1 2 e n 3 4 show ?thesis by blast
qed

section \<open>What update does to forces\<close>

text \<open>
  Claim C3 says that \<open>update\<close> moves the position by the velocity times \<open>dt\<close>, appends
  the position reached to the trace, and changes no velocity, mass or entry of \<open>forces\<close>.
  All of this holds (lemma \<open>update_effect\<close>) but the last: \<open>update\<close> ends with
  \<open>updateForceVisualization\<close>, and \<open>createForceArrow\<close> calls \<open>force.normalize()\<close> on each
  vector that \<open>forces\<close> holds, which scales that vector itself to length 1. After
  \<open>A.attract(B, 1)\<close> on the example the entry \<open>forces[B]\<close> of \<open>A\<close> holds
  \<open>(3 G / 4, 0, 0)\<close>; after \<open>A.update(1)\<close> the same entry holds \<open>(1, 0, 0)\<close>.
\<close>

theorem update_normalizes_forces:
  "map_of (forces (objects example_attracted 0)) ''B'' = Some 6 \<and>
   map_of (forces (objects (update example_attracted 0 (Fin 1)) 0)) ''B'' = Some 6 \<and>
   vectors example_attracted 6 = Vector3 (Fin (3 * G / 4)) (Fin 0) (Fin 0) \<and>
   vectors (update example_attracted 0 (Fin 1)) 6 = Vector3 (Fin 1) (Fin 0) (Fin 0) \<and>
   vectors (update example_attracted 0 (Fin 1)) 6 \<noteq> vectors example_attracted 6"
proof -
  have 1: "map_of (forces (objects example_attracted 0)) ''B'' = Some 6"
    by (simp add: example_attracted_fields)
  have 2: "map_of (forces (objects (update example_attracted 0 (Fin 1)) 0)) ''B'' = Some 6"
    by (simp add: update_def update_variant_objects example_attracted_fields)
  have 3: "vectors example_attracted 6 = Vector3 (Fin (3 * G / 4)) (Fin 0) (Fin 0)"
    by (simp add: example_attracted_fields)
  have "vectors (update_variant 2500 True example_attracted 0 (Fin 1)) 6 =
      vec_normalize (((vectors example_attracted)
        (mesh_position (objects example_attracted 0) :=
           position_after_update example_attracted 0 (Fin 1),
         nvectors example_attracted := position_after_update example_attracted 0 (Fin 1))) 6)"
    by (rule update_variant_vectors_force) (simp_all add: example_attracted_fields)
  then have 4: "vectors (update example_attracted 0 (Fin 1)) 6 = Vector3 (Fin 1) (Fin 0) (Fin 0)"
    by (simp add: update_def example_attracted_fields vec_normalize_axis G_pos)
  have "3 * G / 4 \<noteq> 1" by (simp add: G_def)
  with 1 2 3 4 show ?thesis by simp
qed

section \<open>A time step of zero\<close>

text \<open>
  Claim C7, as amended. \<open>attract(other, 0)\<close> followed by \<open>update(0)\<close> is not a no-op: in
  every store the trace of the body gets one more point (and the oldest point is shifted
  out at capacity), and \<open>forces[other.name]\<close> is set to a vector that did not exist
  before. The values of the body's position and velocity are as they were when the store
  is well formed, the positions, the velocity and the masses are finite, the mass of the
  body is not zero, and the arithmetic is exact: the statement is about the numbers of this
  theory, in which a product of finite numbers is finite. (In the doubles of the source
  \<open>G m1 m2\<close> can overflow to \<open>Infinity\<close>, and \<open>Infinity * 0\<close> is \<open>NaN\<close>.)
\<close>

theorem attract_update_zero_dt:
  "tracePoints (objects (update (attract st a b (Fin 0)) a (Fin 0)) a) =
     push_shift 2500 (tracePoints (objects st a)) (Suc (nvectors st)) \<and>
   map_of (forces (objects (update (attract st a b (Fin 0)) a (Fin 0)) a))
     (name (objects st b)) = Some (nvectors st) \<and>
   mesh_position (objects (update (attract st a b (Fin 0)) a (Fin 0)) a) =
     mesh_position (objects st a) \<and>
   velocity (objects (update (attract st a b (Fin 0)) a (Fin 0)) a) =
     velocity (objects st a) \<and>
   (well_formed st \<and> a < nobjects st \<and> b < nobjects st \<and>
    vec_finite (vectors st (mesh_position (objects st a))) \<and>
    vec_finite (vectors st (mesh_position (objects st b))) \<and>
    vec_finite (vectors st (velocity (objects st a))) \<and>
    isFinite (mass (objects st a)) \<and> mass (objects st a) \<noteq> Fin 0 \<and>
    isFinite (mass (objects st b)) \<longrightarrow>
      vectors (update (attract st a b (Fin 0)) a (Fin 0)) (mesh_position (objects st a)) =
        vectors st (mesh_position (objects st a)) \<and>
      vectors (update (attract st a b (Fin 0)) a (Fin 0)) (velocity (objects st a)) =
        vectors st (velocity (objects st a)) \<and>
      vectors (update (attract st a b (Fin 0)) a (Fin 0)) (Suc (nvectors st)) =
        vectors st (mesh_position (objects st a)) \<and>
      trace_values (update (attract st a b (Fin 0)) a (Fin 0)) a =
        push_shift 2500 (trace_values st a) (vectors st (mesh_position (objects st a))))"
proof -
  let ?s = "attract st a b (Fin 0)"
  have refs: "mesh_position (objects ?s a) = mesh_position (objects st a)"
    "velocity (objects ?s a) = velocity (objects st a)"
    "tracePoints (objects ?s a) = tracePoints (objects st a)"
    by (simp_all add: attract_objects)
  have 1: "tracePoints (objects (update ?s a (Fin 0)) a) =
      push_shift 2500 (tracePoints (objects st a)) (Suc (nvectors st))"
    by (simp add: update_objects refs attract_nvectors)
  have 2: "map_of (forces (objects (update ?s a (Fin 0)) a)) (name (objects st b)) =
      Some (nvectors st)"
    by (simp add: update_objects attract_objects update_conv')
  have 3: "mesh_position (objects (update ?s a (Fin 0)) a) = mesh_position (objects st a)"
    "velocity (objects (update ?s a (Fin 0)) a) = velocity (objects st a)"
    by (simp_all add: update_objects refs)
  have 4: "vectors (update ?s a (Fin 0)) (mesh_position (objects st a)) =
        vectors st (mesh_position (objects st a)) \<and>
      vectors (update ?s a (Fin 0)) (velocity (objects st a)) =
        vectors st (velocity (objects st a)) \<and>
      vectors (update ?s a (Fin 0)) (Suc (nvectors st)) =
        vectors st (mesh_position (objects st a)) \<and>
      trace_values (update ?s a (Fin 0)) a =
        push_shift 2500 (trace_values st a) (vectors st (mesh_position (objects st a)))"
    if h: "well_formed st \<and> a < nobjects st \<and> b < nobjects st \<and>
      vec_finite (vectors st (mesh_position (objects st a))) \<and>
      vec_finite (vectors st (mesh_position (objects st b))) \<and>
      vec_finite (vectors st (velocity (objects st a))) \<and>
      isFinite (mass (objects st a)) \<and> mass (objects st a) \<noteq> Fin 0 \<and>
      isFinite (mass (objects st b))"
  proof -
    from h have wf0: "well_formed st" and a0: "a < nobjects st" and b0: "b < nobjects st"
      by simp_all
    from h obtain a1 a2 a3 b1 b2 b3 mA mB v1 v2 v3 where
      fin: "vectors st (mesh_position (objects st a)) = Vector3 (Fin a1) (Fin a2) (Fin a3)"
        "vectors st (mesh_position (objects st b)) = Vector3 (Fin b1) (Fin b2) (Fin b3)"
        "mass (objects st a) = Fin mA" "mass (objects st b) = Fin mB"
        "vectors st (velocity (objects st a)) = Vector3 (Fin v1) (Fin v2) (Fin v3)"
      unfolding vec_finite_iff isFinite_iff by blast
    from h fin(3) have mA: "mA \<noteq> 0" by auto
    have wf: "well_formed ?s" and a: "a < nobjects ?s"
      using wf0 a0 by (simp_all add: well_formed_attract attract_nobjects)
    have d: "distinct (position (objects st a) # velocity (objects st a) #
           mesh_position (objects st a) #
           (map snd (forces (objects st a)) @ tracePoints (objects st a)))"
      and bd: "\<forall>r\<in>set (position (objects st a) # velocity (objects st a) #
           mesh_position (objects st a) #
           (map snd (forces (objects st a)) @ tracePoints (objects st a))). r < nvectors st"
      by (rule well_formed_refs [OF wf0 a0])+
    have fresh: "mesh_position (objects st a) \<noteq> nvectors st"
      "mesh_position (objects st b) \<noteq> nvectors st" "velocity (objects st a) \<noteq> nvectors st"
      by (rule well_formed_fresh [OF wf0 a0] well_formed_fresh [OF wf0 b0])+
    note av = attract_vectors [OF fresh, of "Fin 0"]
    have vel: "vectors ?s (velocity (objects st a)) = vectors st (velocity (objects st a))"
      unfolding attract_velocity_Fin [OF wf0 a0 b0 fin(1,2,3,4) mA fin(5)] fin(5)
      by (simp add: Let_def)
    have pos: "vectors ?s (mesh_position (objects st a)) =
        vectors st (mesh_position (objects st a))"
      using d fresh by (simp add: av)
    have pau: "position_after_update ?s a (Fin 0) = vectors st (mesh_position (objects st a))"
      unfolding position_after_update_def refs pos vel fin by simp
    have old: "map (vectors ?s) (tracePoints (objects st a)) =
        map (vectors st) (tracePoints (objects st a))"
    proof (rule map_cong [OF refl])
      fix r assume "r \<in> set (tracePoints (objects st a))"
      with d bd have "r \<noteq> velocity (objects st a)" "r \<noteq> nvectors st" by auto
      then show "vectors ?s r = vectors st r" by (simp add: av)
    qed
    have tv: "trace_values ?s a = trace_values st a"
      by (simp add: trace_values_def refs old)
    have p: "vectors (update ?s a (Fin 0)) (mesh_position (objects st a)) =
           vectors st (mesh_position (objects st a))"
      using update_variant_position [OF wf a, of 2500 True "Fin 0"]
      by (simp add: update_def refs pau)
    have v: "vectors (update ?s a (Fin 0)) (velocity (objects st a)) =
           vectors st (velocity (objects st a))"
      using update_variant_velocity [OF wf a, of 2500 True "Fin 0"]
      by (simp add: update_def refs vel)
    have n: "vectors (update ?s a (Fin 0)) (Suc (nvectors st)) =
           vectors st (mesh_position (objects st a))"
      using update_variant_new_point [OF wf a, of 2500 True "Fin 0"]
      by (simp add: update_def attract_nvectors pau)
    have t: "trace_values (update ?s a (Fin 0)) a =
           push_shift 2500 (trace_values st a) (vectors st (mesh_position (objects st a)))"
      unfolding update_def update_variant_trace [OF wf a] tv pau ..
    from p v n t show ?thesis by simp
  qed
  from 1 2 3 4 show ?thesis by blast
qed

theorem attract_update_zero_dt_witness:
  "well_formed example_pair \<and> 0 < nobjects example_pair \<and> 1 < nobjects example_pair \<and>
   vec_finite (vectors example_pair (mesh_position (objects example_pair 0))) \<and>
   vec_finite (vectors example_pair (mesh_position (objects example_pair 1))) \<and>
   vec_finite (vectors example_pair (velocity (objects example_pair 0))) \<and>
   isFinite (mass (objects example_pair 0)) \<and> mass (objects example_pair 0) \<noteq> Fin 0 \<and>
   isFinite (mass (objects example_pair 1)) \<and>
   vectors (update (attract example_pair 0 1 (Fin 0)) 0 (Fin 0)) 2 =
     Vector3 (Fin 0) (Fin 0) (Fin 0) \<and>
   vectors (update (attract example_pair 0 1 (Fin 0)) 0 (Fin 0)) 1 =
     Vector3 (Fin 0) (Fin 0) (Fin 0) \<and>
   trace_values (update (attract example_pair 0 1 (Fin 0)) 0 (Fin 0)) 0 =
     [Vector3 (Fin 0) (Fin 0) (Fin 0)] \<and>
   tracePoints (objects (update (attract example_pair 0 1 (Fin 0)) 0 (Fin 0)) 0) = [7] \<and>
   map_of (forces (objects (update (attract example_pair 0 1 (Fin 0)) 0 (Fin 0)) 0)) ''B'' =
     Some 6"
proof -
  have h: "well_formed example_pair \<and> 0 < nobjects example_pair \<and> 1 < nobjects example_pair \<and>
    vec_finite (vectors example_pair (mesh_position (objects example_pair 0))) \<and>
    vec_finite (vectors example_pair (mesh_position (objects example_pair 1))) \<and>
    vec_finite (vectors example_pair (velocity (objects example_pair 0))) \<and>
    isFinite (mass (objects example_pair 0)) \<and> mass (objects example_pair 0) \<noteq> Fin 0 \<and>
    isFinite (mass (objects example_pair 1))"
    by (simp add: well_formed_example_pair example_pair_fields)
  note t = attract_update_zero_dt [of example_pair 0 1]
  note c = t [THEN conjunct2, THEN conjunct2, THEN conjunct2, THEN conjunct2, THEN mp, OF h]
  show ?thesis
    using t c h
    by (simp add: example_pair_fields trace_values_def push_shift_def)
qed

text \<open>
  The claim as stated fails on the example: the trace of \<open>A\<close> is empty before the two
  calls and has one point after them, and \<open>forces\<close> of \<open>A\<close> has no entry for \<open>B\<close> before
  and one after.
\<close>

theorem zero_dt_counterexample:
  "tracePoints (objects example_pair 0) = [] \<and>
   tracePoints (objects (update (attract example_pair 0 1 (Fin 0)) 0 (Fin 0)) 0) = [7] \<and>
   map_of (forces (objects example_pair 0)) ''B'' = None \<and>
   map_of (forces (objects (update (attract example_pair 0 1 (Fin 0)) 0 (Fin 0)) 0)) ''B'' =
     Some 6"
  by (simp add: update_def update_variant_objects attract_objects attract_nvectors
      example_pair_fields push_shift_def)

section \<open>The frame loop\<close>

lemma attract_others_run:
  "attract_others dt others st body =
     run dt st (map (Attract body) (filter (\<lambda>other. other \<noteq> body) others))"
  unfolding attract_others_def run_def
  by (induction others arbitrary: st) simp_all

lemma run_append: "run dt st (xs @ ys) = run dt (run dt st xs) ys"
  by (simp add: run_def)

lemma run_frame:
  "foldl (\<lambda>s body. update (attract_others dt others s body) body dt) st bodies =
     run dt st (concat (map (body_calls others) bodies))"
  by (induction bodies arbitrary: st)
    (simp_all add: run_append attract_others_run body_calls_def, simp_all add: run_def)

lemma animate_run: "animate st dt = run dt st (frame_calls (planets st))"
  by (simp add: animate_def frame_calls_def run_frame)

lemma animate_two:
  assumes "planets st = [a, b]" "a \<noteq> b"
  shows "animate st dt = update (attract (update (attract st a b dt) a dt) b a dt) b dt"
  using assms by (simp add: animate_def attract_others_def)

lemma animate_two_velocities:
  assumes wf: "well_formed st" and pl: "planets st = [a, b]" and ab: "a \<noteq> b"
  shows "vectors (update (attract st a b dt) a dt)
           (mesh_position (objects (update (attract st a b dt) a dt) a)) =
         position_after_update (attract st a b dt) a dt"
    and "vectors (animate st dt) (velocity (objects st b)) =
         vec_addScaledVector (vectors st (velocity (objects st b)))
           (attract_acceleration (update (attract st a b dt) a dt) b a) dt"
    and "vectors (animate st dt) (velocity (objects st a)) =
         vec_addScaledVector (vectors st (velocity (objects st a)))
           (attract_acceleration st a b) dt"
proof -
  let ?S1 = "attract st a b dt"
  let ?S = "update ?S1 a dt"
  let ?S3 = "attract ?S b a dt"
  have a: "a < nobjects st" and b: "b < nobjects st"
    using wf pl unfolding well_formed_def by simp_all
  have wf1: "well_formed ?S1" and a1: "a < nobjects ?S1" and b1: "b < nobjects ?S1"
    using wf a b by (simp_all add: well_formed_attract attract_nobjects)
  have wfS: "well_formed ?S" and aS: "a < nobjects ?S" and bS: "b < nobjects ?S"
    using wf1 a1 b1
    by (simp_all add: well_formed_update update_nobjects)
  have wf3: "well_formed ?S3" and a3: "a < nobjects ?S3" and b3: "b < nobjects ?S3"
    using wfS aS bS by (simp_all add: well_formed_attract attract_nobjects)
  have ob1: "objects ?S1 b = objects st b" and obS: "objects ?S b = objects st b"
    using ab by (simp_all add: update_objects attract_objects)
  have va1: "velocity (objects ?S1 a) = velocity (objects st a)"
    and vaS: "velocity (objects ?S a) = velocity (objects st a)"
    and va3: "velocity (objects ?S3 a) = velocity (objects st a)"
    and vb3: "velocity (objects ?S3 b) = velocity (objects st b)"
    and ma1: "mesh_position (objects ?S1 a) = mesh_position (objects st a)"
    using ab by (simp_all add: update_objects attract_objects)
  show "vectors ?S (mesh_position (objects ?S a)) = position_after_update ?S1 a dt"
    unfolding update_mesh_position
    by (rule update_position [OF wf1 a1])
  have vb_in: "velocity (objects st b) \<in> set (refs_of (objects st b))"
    and va_in: "velocity (objects st a) \<in> set (refs_of (objects st a))"
    by (simp_all add: refs_of_def)
  have "vectors ?S1 (velocity (objects st b)) = vectors st (velocity (objects st b))"
    using attract_other_vectors [OF wf a b b _ vb_in] ab by simp
  moreover have "vectors ?S (velocity (objects st b)) = vectors ?S1 (velocity (objects st b))"
    using update_other_vectors [OF wf1 a1 b1, of "velocity (objects st b)"] ab vb_in
    by (simp add: ob1)
  ultimately have vbS: "vectors ?S (velocity (objects st b)) = vectors st (velocity (objects st b))"
    by simp
  have "vectors (animate st dt) (velocity (objects st b)) =
      vectors (update ?S3 b dt) (velocity (objects ?S3 b))"
    by (simp add: animate_two [OF pl ab] vb3)
  also have "\<dots> = vectors ?S3 (velocity (objects ?S3 b))"
    by (rule update_velocity [OF wf3 b3])
  also have "\<dots> = vectors ?S3 (velocity (objects ?S b))"
    by (simp add: vb3 obS)
  also have "\<dots> = vec_addScaledVector (vectors ?S (velocity (objects ?S b)))
      (attract_acceleration ?S b a) dt"
    by (rule attract_velocity [OF wfS bS aS])
  finally show "vectors (animate st dt) (velocity (objects st b)) =
         vec_addScaledVector (vectors st (velocity (objects st b)))
           (attract_acceleration ?S b a) dt"
    by (simp add: obS vbS)
  have va_in3: "velocity (objects st a) \<in> set (refs_of (objects ?S3 a))"
    and va_inS: "velocity (objects st a) \<in> set (refs_of (objects ?S a))"
    using va3 vaS by (simp_all add: refs_of_def)
  have "vectors (animate st dt) (velocity (objects st a)) =
      vectors (update ?S3 b dt) (velocity (objects st a))"
    by (simp add: animate_two [OF pl ab])
  also have "\<dots> = vectors ?S3 (velocity (objects st a))"
    using update_other_vectors [OF wf3 b3 a3 ab va_in3] .
  also have "\<dots> = vectors ?S (velocity (objects st a))"
    using attract_other_vectors [OF wfS bS aS aS ab va_inS] .
  also have "\<dots> = vectors ?S1 (velocity (objects ?S1 a))"
    unfolding va1 [symmetric]
    by (rule update_velocity [OF wf1 a1])
  also have "\<dots> = vec_addScaledVector (vectors st (velocity (objects st a)))
      (attract_acceleration st a b) dt"
    unfolding va1 by (rule attract_velocity [OF wf a b])
  finally show "vectors (animate st dt) (velocity (objects st a)) =
         vec_addScaledVector (vectors st (velocity (objects st a)))
           (attract_acceleration st a b) dt" .
qed

lemma axis_acceleration:
  assumes "vectors st (mesh_position (objects st a)) = Vector3 (Fin xa) (Fin 0) (Fin 0)"
    and "vectors st (mesh_position (objects st b)) = Vector3 (Fin xb) (Fin 0) (Fin 0)"
    and "mass (objects st a) = Fin mA" and "mass (objects st b) = Fin mB"
    and "mA \<noteq> 0" and "xa \<noteq> xb"
  shows "attract_acceleration st a b =
     Vector3 (Fin ((xb - xa) / \<bar>xb - xa\<bar> * (G * mB / (max \<bar>xb - xa\<bar> 1)\<^sup>2))) (Fin 0) (Fin 0)"
  unfolding attract_acceleration_Fin [OF assms(1-5)] distance3_axis Let_def
  using assms(5,6) by simp

lemma well_formed_example_order: "well_formed example_order"
  unfolding example_order_def by (rule well_formed_two_bodies)

lemma well_formed_example_reversed: "well_formed example_reversed"
  using well_formed_example_order
  by (simp add: well_formed_def example_reversed_def example_order_def two_bodies_fields)

lemma example_order_fields:
  "nvectors example_order = 6"
  "nobjects example_order = 2"
  "planets example_order = [0, 1]"
  "objects example_order 0 =
     \<lparr>name = ''A'', size_p = Fin 1, position = 0, velocity = 1, mass = Fin (4 / G), forces = [],
      mesh_position = 2, tracePoints = []\<rparr>"
  "objects example_order (Suc 0) =
     \<lparr>name = ''B'', size_p = Fin 1, position = 3, velocity = 4, mass = Fin (9 / G), forces = [],
      mesh_position = 5, tracePoints = []\<rparr>"
  "vectors example_order (Suc 0) = Vector3 (Fin 0) (Fin 0) (Fin 0)"
  "vectors example_order 2 = Vector3 (Fin 0) (Fin 0) (Fin 0)"
  "vectors example_order 4 = Vector3 (Fin 0) (Fin 0) (Fin 0)"
  "vectors example_order 5 = Vector3 (Fin 3) (Fin 0) (Fin 0)"
  by (simp_all add: example_order_def two_bodies_fields)

lemma example_reversed_fields:
  "nobjects example_reversed = 2"
  "planets example_reversed = [1, 0]"
  "objects example_reversed = objects example_order"
  "vectors example_reversed = vectors example_order"
  by (simp_all add: example_reversed_def example_order_fields)

lemma G_nonzero: "G \<noteq> 0"
  by (simp add: G_def)

lemma example_order_accelerations:
  "attract_acceleration example_order 0 1 = Vector3 (Fin 1) (Fin 0) (Fin 0)"
  "attract_acceleration example_order 1 0 = Vector3 (Fin (- 4 / 9)) (Fin 0) (Fin 0)"
proof -
  have h: "vectors example_order (mesh_position (objects example_order 0)) =
        Vector3 (Fin 0) (Fin 0) (Fin 0)"
    "vectors example_order (mesh_position (objects example_order 1)) =
        Vector3 (Fin 3) (Fin 0) (Fin 0)"
    "mass (objects example_order 0) = Fin (4 / G)" "mass (objects example_order 1) = Fin (9 / G)"
    "4 / G \<noteq> 0" "9 / G \<noteq> 0" "(0::real) \<noteq> 3" "(3::real) \<noteq> 0"
    by (simp_all add: example_order_fields G_nonzero)
  show "attract_acceleration example_order 0 1 = Vector3 (Fin 1) (Fin 0) (Fin 0)"
    using axis_acceleration [OF h(1,2,3,4,5,7)] by (simp add: G_nonzero)
  show "attract_acceleration example_order 1 0 = Vector3 (Fin (- 4 / 9)) (Fin 0) (Fin 0)"
    using axis_acceleration [OF h(2,1,4,3,6,8)] by (simp add: G_nonzero)
qed

lemma first_body_step:
  assumes wf: "well_formed st" and a: "a < nobjects st" and b: "b < nobjects st" and ab: "a \<noteq> b"
    and pa: "vectors st (mesh_position (objects st a)) = Vector3 (Fin xa) (Fin 0) (Fin 0)"
    and pb: "vectors st (mesh_position (objects st b)) = Vector3 (Fin xb) (Fin 0) (Fin 0)"
    and va: "vectors st (velocity (objects st a)) = Vector3 (Fin v) (Fin 0) (Fin 0)"
    and ma: "mass (objects st a) = Fin mA" and mb: "mass (objects st b) = Fin mB"
    and nz: "mA \<noteq> 0" "xa \<noteq> xb"
  shows "vectors (update (attract st a b (Fin t)) a (Fin t))
           (mesh_position (objects (update (attract st a b (Fin t)) a (Fin t)) a)) =
         Vector3 (Fin (xa + (v + (xb - xa) / \<bar>xb - xa\<bar> *
           (G * mB / (max \<bar>xb - xa\<bar> 1)\<^sup>2) * t) * t)) (Fin 0) (Fin 0)"
    and "vectors (update (attract st a b (Fin t)) a (Fin t))
           (mesh_position (objects (update (attract st a b (Fin t)) a (Fin t)) b)) =
         Vector3 (Fin xb) (Fin 0) (Fin 0)"
    and "mass (objects (update (attract st a b (Fin t)) a (Fin t)) a) = Fin mA"
    and "mass (objects (update (attract st a b (Fin t)) a (Fin t)) b) = Fin mB"
proof -
  let ?S1 = "attract st a b (Fin t)"
  let ?S = "update ?S1 a (Fin t)"
  have wf1: "well_formed ?S1" and a1: "a < nobjects ?S1" and b1: "b < nobjects ?S1"
    using wf a b by (simp_all add: well_formed_attract attract_nobjects)
  have ob1: "objects ?S1 b = objects st b" and obS: "objects ?S b = objects st b"
    and ma1: "mesh_position (objects ?S1 a) = mesh_position (objects st a)"
    and va1: "velocity (objects ?S1 a) = velocity (objects st a)"
    using ab by (simp_all add: update_objects attract_objects)
  have p1: "vectors ?S1 (mesh_position (objects st a)) = Vector3 (Fin xa) (Fin 0) (Fin 0)"
    unfolding attract_own_position [OF wf a b] by (rule pa)
  have v1: "vectors ?S1 (velocity (objects st a)) =
      Vector3 (Fin (v + (xb - xa) / \<bar>xb - xa\<bar> * (G * mB / (max \<bar>xb - xa\<bar> 1)\<^sup>2) * t))
        (Fin 0) (Fin 0)"
    unfolding attract_velocity [OF wf a b] axis_acceleration [OF pa pb ma mb nz] va by simp
  have "vectors ?S (mesh_position (objects ?S a)) = vectors ?S (mesh_position (objects ?S1 a))"
    by (simp only: update_mesh_position)
  also have "\<dots> = position_after_update ?S1 a (Fin t)"
    by (rule update_position [OF wf1 a1])
  also have "\<dots> = Vector3 (Fin (xa + (v + (xb - xa) / \<bar>xb - xa\<bar> *
           (G * mB / (max \<bar>xb - xa\<bar> 1)\<^sup>2) * t) * t)) (Fin 0) (Fin 0)"
    unfolding position_after_update_def ma1 va1 p1 v1 by simp
  finally show "vectors ?S (mesh_position (objects ?S a)) =
         Vector3 (Fin (xa + (v + (xb - xa) / \<bar>xb - xa\<bar> *
           (G * mB / (max \<bar>xb - xa\<bar> 1)\<^sup>2) * t) * t)) (Fin 0) (Fin 0)" .
  have in_b: "mesh_position (objects st b) \<in> set (refs_of (objects st b))"
    by (simp add: refs_of_def)
  have "vectors ?S1 (mesh_position (objects st b)) = vectors st (mesh_position (objects st b))"
    using attract_other_vectors [OF wf a b b _ in_b] ab by simp
  moreover have "vectors ?S (mesh_position (objects st b)) =
      vectors ?S1 (mesh_position (objects st b))"
    using update_other_vectors [OF wf1 a1 b1, of "mesh_position (objects st b)"] ab in_b
    by (simp add: ob1)
  ultimately show "vectors ?S (mesh_position (objects ?S b)) = Vector3 (Fin xb) (Fin 0) (Fin 0)"
    by (simp add: obS pb)
  show "mass (objects ?S a) = Fin mA" "mass (objects ?S b) = Fin mB"
    using ab by (simp_all add: update_objects attract_objects ma mb)
qed

lemma example_order_later_body:
  "vectors (animate example_order (Fin 1)) (velocity (objects example_order 1)) =
     Vector3 (Fin (- 1)) (Fin 0) (Fin 0)"
proof -
  note wf = well_formed_example_order
  have h: "0 < nobjects example_order" "1 < nobjects example_order" "(0::nat) \<noteq> 1"
    "vectors example_order (mesh_position (objects example_order 0)) =
        Vector3 (Fin 0) (Fin 0) (Fin 0)"
    "vectors example_order (mesh_position (objects example_order 1)) =
        Vector3 (Fin 3) (Fin 0) (Fin 0)"
    "vectors example_order (velocity (objects example_order 0)) =
        Vector3 (Fin 0) (Fin 0) (Fin 0)"
    "mass (objects example_order 0) = Fin (4 / G)" "mass (objects example_order 1) = Fin (9 / G)"
    "4 / G \<noteq> 0" "(0::real) \<noteq> 3"
    and pl: "planets example_order = [0, 1]"
    and v1: "vectors example_order (velocity (objects example_order 1)) =
        Vector3 (Fin 0) (Fin 0) (Fin 0)"
    by (simp_all add: example_order_fields G_nonzero)
  let ?S = "update (attract example_order 0 1 (Fin 1)) 0 (Fin 1)"
  note s = first_body_step [OF wf h, of 1]
  have p0: "vectors ?S (mesh_position (objects ?S 0)) = Vector3 (Fin 1) (Fin 0) (Fin 0)"
    using s(1) by (simp add: G_nonzero)
  have "9 / G \<noteq> 0" "(3::real) \<noteq> 1" by (simp_all add: G_nonzero)
  note acc = axis_acceleration [OF s(2) p0 s(4) s(3) this]
  show ?thesis
    unfolding animate_two_velocities(2) [OF wf pl h(3)] acc v1
    by (simp add: G_nonzero)
qed

lemma example_order_earlier_body:
  "vectors (animate example_order (Fin 1)) (velocity (objects example_order 0)) =
     Vector3 (Fin 1) (Fin 0) (Fin 0)"
proof -
  have pl: "planets example_order = [0, 1]" and ab: "(0::nat) \<noteq> 1"
    and v0: "vectors example_order (velocity (objects example_order 0)) =
        Vector3 (Fin 0) (Fin 0) (Fin 0)"
    by (simp_all add: example_order_fields)
  show ?thesis
    unfolding animate_two_velocities(3) [OF well_formed_example_order pl ab]
      example_order_accelerations(1) v0
    by simp
qed

lemma example_reversed_later_body:
  "vectors (animate example_reversed (Fin 1)) (velocity (objects example_reversed 0)) =
     Vector3 (Fin (729 / 529)) (Fin 0) (Fin 0)"
proof -
  note wf = well_formed_example_reversed
  have h: "1 < nobjects example_reversed" "0 < nobjects example_reversed" "(1::nat) \<noteq> 0"
    "vectors example_reversed (mesh_position (objects example_reversed 1)) =
        Vector3 (Fin 3) (Fin 0) (Fin 0)"
    "vectors example_reversed (mesh_position (objects example_reversed 0)) =
        Vector3 (Fin 0) (Fin 0) (Fin 0)"
    "vectors example_reversed (velocity (objects example_reversed 1)) =
        Vector3 (Fin 0) (Fin 0) (Fin 0)"
    "mass (objects example_reversed 1) = Fin (9 / G)"
    "mass (objects example_reversed 0) = Fin (4 / G)"
    "9 / G \<noteq> 0" "(3::real) \<noteq> 0"
    and pl: "planets example_reversed = [1, 0]"
    and v0: "vectors example_reversed (velocity (objects example_reversed 0)) =
        Vector3 (Fin 0) (Fin 0) (Fin 0)"
    by (simp_all add: example_reversed_fields example_order_fields G_nonzero)
  let ?S = "update (attract example_reversed 1 0 (Fin 1)) 1 (Fin 1)"
  note s = first_body_step [OF wf h, of 1]
  have p1: "vectors ?S (mesh_position (objects ?S 1)) = Vector3 (Fin (23 / 9)) (Fin 0) (Fin 0)"
    using s(1) by (simp add: G_nonzero)
  have "4 / G \<noteq> 0" "(0::real) \<noteq> 23 / 9" by (simp_all add: G_nonzero)
  note acc = axis_acceleration [OF s(2) p1 s(4) s(3) this]
  show ?thesis
    unfolding animate_two_velocities(2) [OF wf pl h(3)] acc v0
    by (simp add: G_nonzero power2_eq_square)
qed

text \<open>
  Claim C5, as amended. One frame performs, for each body of \<open>planets\<close> in order,
  \<open>body.attract(other, dt)\<close> for every other body in order and then \<open>body.update(dt)\<close>:
  the calls of a body run after all calls of the earlier bodies, their updates included,
  and before any call of a later body. So for two planets \<open>[a, b]\<close> the calls are \<open>a.attract(b)\<close>, \<open>a.update\<close>, \<open>b.attract(a)\<close>,
  \<open>b.update\<close>: the later body \<open>b\<close> is attracted in the store in which the position of the
  earlier body \<open>a\<close> is already updated, while \<open>a\<close> is attracted with the position of \<open>b\<close>
  not yet updated. The result depends on the order: with the two planets of the example
  listed the other way round, the velocity of \<open>A\<close> after the frame is another one.
\<close>

theorem animate_sequential:
  "animate st dt = run dt st (frame_calls (planets st)) \<and>
   (planets st = earlier @ body # later \<longrightarrow>
      animate st dt =
        run dt (run dt (run dt st (concat (map (body_calls (planets st)) earlier)))
                  (body_calls (planets st) body))
          (concat (map (body_calls (planets st)) later))) \<and>
   (well_formed st \<and> planets st = [a, b] \<and> a \<noteq> b \<longrightarrow>
      frame_calls (planets st) = [Attract a b, Update a, Attract b a, Update b] \<and>
      vectors (update (attract st a b dt) a dt)
          (mesh_position (objects (update (attract st a b dt) a dt) a)) =
        position_after_update (attract st a b dt) a dt \<and>
      vectors (animate st dt) (velocity (objects st b)) =
        vec_addScaledVector (vectors st (velocity (objects st b)))
          (attract_acceleration (update (attract st a b dt) a dt) b a) dt \<and>
      vectors (animate st dt) (velocity (objects st a)) =
        vec_addScaledVector (vectors st (velocity (objects st a)))
          (attract_acceleration st a b) dt) \<and>
   planets example_reversed = rev (planets example_order) \<and>
   objects example_reversed = objects example_order \<and>
   vectors example_reversed = vectors example_order \<and>
   vectors (animate example_order (Fin 1)) (velocity (objects example_order 0)) \<noteq>
     vectors (animate example_reversed (Fin 1)) (velocity (objects example_reversed 0))"
proof -
  have 1: "animate st dt = run dt st (frame_calls (planets st))"
    by (rule animate_run)
  have 2: "frame_calls (planets st) = [Attract a b, Update a, Attract b a, Update b] \<and>
      vectors (update (attract st a b dt) a dt)
          (mesh_position (objects (update (attract st a b dt) a dt) a)) =
        position_after_update (attract st a b dt) a dt \<and>
      vectors (animate st dt) (velocity (objects st b)) =
        vec_addScaledVector (vectors st (velocity (objects st b)))
          (attract_acceleration (update (attract st a b dt) a dt) b a) dt \<and>
      vectors (animate st dt) (velocity (objects st a)) =
        vec_addScaledVector (vectors st (velocity (objects st a)))
          (attract_acceleration st a b) dt"
    if "well_formed st \<and> planets st = [a, b] \<and> a \<noteq> b"
  proof -
    from that have wf: "well_formed st" and pl: "planets st = [a, b]" and ab: "a \<noteq> b"
      by simp_all
    have "frame_calls (planets st) = [Attract a b, Update a, Attract b a, Update b]"
      using ab by (simp add: pl frame_calls_def body_calls_def)
    with animate_two_velocities [OF wf pl ab, of dt] show ?thesis by simp
  qed
  have 5: "animate st dt =
        run dt (run dt (run dt st (concat (map (body_calls (planets st)) earlier)))
                  (body_calls (planets st) body))
          (concat (map (body_calls (planets st)) later))"
    if "planets st = earlier @ body # later"
  proof -
    have "frame_calls (planets st) =
        concat (map (body_calls (planets st)) earlier) @ body_calls (planets st) body @
        concat (map (body_calls (planets st)) later)"
      unfolding frame_calls_def by (subst (2) that) simp
    then show ?thesis by (simp add: 1 run_append)
  qed
  have 3: "planets example_reversed = rev (planets example_order)"
    "objects example_reversed = objects example_order"
    "vectors example_reversed = vectors example_order"
    by (simp_all add: example_reversed_fields example_order_fields)
  have 4: "vectors (animate example_order (Fin 1)) (velocity (objects example_order 0)) \<noteq>
     vectors (animate example_reversed (Fin 1)) (velocity (objects example_reversed 0))"
    unfolding example_order_earlier_body example_reversed_later_body by simp
  from 1 5 2 3 4 show ?thesis by blast
qed

theorem animate_sequential_witness:
  "well_formed example_order \<and> planets example_order = [0, 1] \<and> (0::nat) \<noteq> 1 \<and>
   frame_calls (planets example_order) = [Attract 0 1, Update 0, Attract 1 0, Update 1] \<and>
   position_after_update (attract example_order 0 1 (Fin 1)) 0 (Fin 1) =
     Vector3 (Fin 1) (Fin 0) (Fin 0) \<and>
   vectors (animate example_order (Fin 1)) (velocity (objects example_order 1)) =
     Vector3 (Fin (- 1)) (Fin 0) (Fin 0) \<and>
   vectors (animate example_order (Fin 1)) (velocity (objects example_order 0)) =
     Vector3 (Fin 1) (Fin 0) (Fin 0)"
proof -
  have h: "well_formed example_order \<and> planets example_order = [0, 1] \<and> (0::nat) \<noteq> 1"
    by (simp add: well_formed_example_order example_order_fields)
  note t = animate_sequential [of example_order "Fin 1" "[]" 0 "[1]" 0 1,
      THEN conjunct2, THEN conjunct2, THEN conjunct1, THEN mp, OF h]
  have b: "0 < nobjects example_order" "1 < nobjects example_order" "(0::nat) \<noteq> 1"
    "vectors example_order (mesh_position (objects example_order 0)) =
        Vector3 (Fin 0) (Fin 0) (Fin 0)"
    "vectors example_order (mesh_position (objects example_order 1)) =
        Vector3 (Fin 3) (Fin 0) (Fin 0)"
    "vectors example_order (velocity (objects example_order 0)) =
        Vector3 (Fin 0) (Fin 0) (Fin 0)"
    "mass (objects example_order 0) = Fin (4 / G)" "mass (objects example_order 1) = Fin (9 / G)"
    "4 / G \<noteq> 0" "(0::real) \<noteq> 3"
    by (simp_all add: example_order_fields G_nonzero)
  have p: "position_after_update (attract example_order 0 1 (Fin 1)) 0 (Fin 1) =
     Vector3 (Fin 1) (Fin 0) (Fin 0)"
    using first_body_step(1) [OF well_formed_example_order b, of 1]
      t [THEN conjunct2, THEN conjunct1]
    by (simp add: G_nonzero)
  from h t p show ?thesis
    by (simp only: example_order_later_body example_order_earlier_body simp_thms)
qed

text \<open>
  The claim as stated has the later body use the not-yet-updated position of the earlier
  one. On the example, with \<open>dt = 1\<close>, the velocity of the later body \<open>B\<close> after the frame
  is \<open>(-1, 0, 0)\<close>, computed from \<open>A\<close> at its updated position \<open>(1, 0, 0)\<close>; from \<open>A\<close> at
  the origin it would be \<open>(-4/9, 0, 0)\<close>.
\<close>

theorem later_body_counterexample:
  "planets example_order = [0, 1] \<and>
   vectors (animate example_order (Fin 1)) (velocity (objects example_order 1)) =
     Vector3 (Fin (- 1)) (Fin 0) (Fin 0) \<and>
   vec_addScaledVector (vectors example_order (velocity (objects example_order 1)))
       (attract_acceleration example_order 1 0) (Fin 1) =
     Vector3 (Fin (- 4 / 9)) (Fin 0) (Fin 0) \<and>
   vectors (animate example_order (Fin 1)) (velocity (objects example_order 1)) \<noteq>
     vec_addScaledVector (vectors example_order (velocity (objects example_order 1)))
       (attract_acceleration example_order 1 0) (Fin 1)"
  unfolding example_order_later_body example_order_accelerations
  by (simp add: example_order_fields)

section \<open>The stores the program builds\<close>

lemma well_formed_initial: "well_formed initial"
  by (simp add: well_formed_def initial_def)

lemma well_formed_new_Planet:
  assumes "well_formed st"
  shows "well_formed (snd (new_Planet st nm sz p v m))"
proof -
  let ?n = "nvectors st" and ?k = "nobjects st"
  let ?st = "snd (new_Planet st nm sz p v m)"
  have f: "nvectors ?st = Suc (Suc (Suc ?n))" "nobjects ?st = Suc ?k"
    "planets ?st = planets st @ [?k]"
    "objects ?st = (objects st)(?k := \<lparr>name = nm, size_p = sz, position = ?n,
        velocity = Suc ?n, mass = m, forces = [], mesh_position = Suc (Suc ?n),
        tracePoints = []\<rparr>)"
    by (simp_all add: new_Planet_def Planet_def new_Vector3_def multiplyScalar_def Let_def)
  have bound: "\<And>c r. c < ?k \<Longrightarrow> r \<in> set (refs_of (objects st c)) \<Longrightarrow> r < ?n"
    using assms unfolding well_formed_def by blast
  have new: "refs_of (objects ?st ?k) = [?n, Suc ?n, Suc (Suc ?n)]"
    by (simp add: f refs_of_def)
  have old: "objects ?st c = objects st c" if "c < ?k" for c
    using that by (simp add: f)
  show ?thesis
    unfolding well_formed_def
  proof (intro conjI allI impI ballI)
    fix c assume "c < nobjects ?st"
    then show "distinct (refs_of (objects ?st c))"
      using assms by (cases "c = ?k") (auto simp: new old f(2) well_formed_def)
  next
    fix c r assume "c < nobjects ?st" "r \<in> set (refs_of (objects ?st c))"
    then show "r < nvectors ?st"
      using bound [of c r] by (cases "c = ?k") (auto simp: new old f(1,2))
  next
    fix c d assume c: "c < nobjects ?st" and d: "d < nobjects ?st" and cd: "c \<noteq> d"
    have sep: "set (refs_of (objects st c)) \<inter> set (refs_of (objects st d)) = {}"
      if "c < ?k" "d < ?k"
      using assms that cd unfolding well_formed_def by blast
    have fresh: "set (refs_of (objects st e)) \<inter> {?n, Suc ?n, Suc (Suc ?n)} = {}" if "e < ?k" for e
      using bound [OF that] by fastforce
    show "set (refs_of (objects ?st c)) \<inter> set (refs_of (objects ?st d)) = {}"
    proof (cases "c = ?k")
      case True
      with d cd have "d < ?k" by (simp add: f)
      with True fresh [of d] show ?thesis by (simp add: new old Int_commute)
    next
      case False
      with c have ck: "c < ?k" by (simp add: f)
      show ?thesis
      proof (cases "d = ?k")
        case True
        with ck fresh [of c] show ?thesis by (simp add: new old)
      next
        case False
        with d have "d < ?k" by (simp add: f)
        with ck sep show ?thesis by (simp add: old)
      qed
    qed
  next
    fix c assume "c \<in> set (planets ?st)"
    then show "c < nobjects ?st"
      using assms by (auto simp: f well_formed_def less_Suc_eq)
  qed
qed

lemma spawnObject_new_Planet:
  "spawnObject st planetMass planetSize planetVelocity P D =
     (snd (new_Planet st ''new planet'' planetSize P (vec_multiplyScalar D planetVelocity)
        planetMass))
     \<lparr>planets := planets st @ [nobjects st, nobjects st]\<rparr>"
  by (simp add: spawnObject_def new_Planet_def Planet_def new_Vector3_def multiplyScalar_def
      Let_def)

lemma well_formed_spawnObject:
  assumes "well_formed st"
  shows "well_formed (spawnObject st planetMass planetSize planetVelocity P D)"
proof -
  let ?st = "snd (new_Planet st ''new planet'' planetSize P
      (vec_multiplyScalar D planetVelocity) planetMass)"
  have wf: "well_formed ?st" using assms by (rule well_formed_new_Planet)
  have f: "nobjects ?st = Suc (nobjects st)" "planets ?st = planets st @ [nobjects st]"
    by (simp_all add: new_Planet_def Planet_def new_Vector3_def multiplyScalar_def Let_def)
  show ?thesis
    unfolding spawnObject_new_Planet
    using wf by (auto simp: well_formed_def f)
qed

lemma well_formed_run:
  assumes "well_formed st" "\<forall>c\<in>set calls. \<forall>r\<in>set (call_refs c). r < nobjects st"
  shows "well_formed (run dt st calls) \<and> nobjects (run dt st calls) = nobjects st"
  using assms
proof (induction calls arbitrary: st)
  case Nil
  then show ?case by (simp add: run_def)
next
  case (Cons c calls)
  have step: "well_formed (run_call dt st c) \<and> nobjects (run_call dt st c) = nobjects st"
    using Cons.prems
    by (cases c)
      (simp_all add: well_formed_attract attract_nobjects well_formed_update update_nobjects)
  then have "well_formed (run dt (run_call dt st c) calls) \<and>
      nobjects (run dt (run_call dt st c) calls) = nobjects (run_call dt st c)"
    using Cons.prems by (intro Cons.IH) simp_all
  with step show ?case by (simp add: run_def)
qed

lemma well_formed_animate:
  assumes "well_formed st"
  shows "well_formed (animate st dt)"
proof -
  have "\<forall>b\<in>set (planets st). b < nobjects st"
    using assms by (simp add: well_formed_def)
  then have "\<forall>c\<in>set (frame_calls (planets st)). \<forall>r\<in>set (call_refs c). r < nobjects st"
    by (auto simp: frame_calls_def body_calls_def)
  with assms show ?thesis
    unfolding animate_run by (simp add: well_formed_run)
qed

section \<open>Spawning\<close>

text \<open>
  Claim C8 has the collection extended by the one new body. \<open>spawnObject\<close> does create the
  body at the camera position \<open>P\<close>, with the velocity \<open>D\<close> scaled by the speed and then by
  \<open>4e7\<close>; but the constructor has already pushed the new object onto \<open>planets\<close> when
  \<open>spawnObject\<close> pushes it again, so the collection ends with the same object twice.
  Spawned into the empty store, the one body is then updated twice by one frame.
\<close>

theorem spawnObject_pushes_twice:
  "planets (spawnObject st planetMass planetSize planetVelocity P D) =
     planets st @ [nobjects st, nobjects st] \<and>
   nobjects (spawnObject st planetMass planetSize planetVelocity P D) = Suc (nobjects st) \<and>
   objects (spawnObject st planetMass planetSize planetVelocity P D) (nobjects st) =
     \<lparr>name = ''new planet'', size_p = planetSize, position = nvectors st,
      velocity = Suc (nvectors st), mass = planetMass, forces = [],
      mesh_position = Suc (Suc (nvectors st)), tracePoints = []\<rparr> \<and>
   vectors (spawnObject st planetMass planetSize planetVelocity P D) (nvectors st) = P \<and>
   vectors (spawnObject st planetMass planetSize planetVelocity P D) (Suc (Suc (nvectors st))) = P \<and>
   vectors (spawnObject st planetMass planetSize planetVelocity P D) (Suc (nvectors st)) =
     vec_multiplyScalar (vec_multiplyScalar D planetVelocity) (Fin 40000000) \<and>
   planets (spawnObject initial planetMass planetSize planetVelocity P D) = [0, 0] \<and>
   tracePoints (objects (animate (spawnObject initial planetMass planetSize planetVelocity P D) dt) 0) =
     [3, 4]"
proof -
  let ?s = "spawnObject initial planetMass planetSize planetVelocity P D"
  have pl: "planets ?s = [0, 0]" and n: "nvectors ?s = 3"
    and tp: "tracePoints (objects ?s 0) = []"
    by (simp_all add: spawnObject_def Planet_def new_Vector3_def multiplyScalar_def Let_def
        initial_def)
  have an: "animate ?s dt = update (update ?s 0 dt) 0 dt"
    by (simp add: animate_def attract_others_def pl)
  have "tracePoints (objects (animate ?s dt) 0) = [3, 4]"
    unfolding an
    by (simp add: update_objects update_nvectors n tp push_shift_def)
  with pl show ?thesis
    by (simp add: spawnObject_def Planet_def new_Vector3_def multiplyScalar_def Let_def)
qed

end
